theory Spec2Isabelle
  imports Complex_Main "HOL-Library.Sublist" "HOL-Library.AList" "HOL-Library.Multiset"
begin

section \<open>JavaScript strings\<close>

text \<open>
  A JavaScript string is a sequence of UTF-16 code units; \<open>length\<close>, \<open>indexOf\<close>,
  \<open>substring\<close> and the regular expressions of the program all count code units.  A code
  unit is modelled by its number, so that the pound sign is \<open>163\<close>, the euro sign
  \<open>8364\<close> and a line feed \<open>10\<close>.  ASCII literals are written \<open>js ''...''\<close>.
\<close>

type_synonym jschar = nat
type_synonym jsstring = "jschar list"

definition js :: "string \<Rightarrow> jsstring" where
  "js s = map of_char s"

text \<open>\<open>s.includes(t)\<close>: \<open>t\<close> occurs in \<open>s\<close> as a contiguous run.\<close>

fun includes_str :: "jsstring \<Rightarrow> jsstring \<Rightarrow> bool" where
  "includes_str [] t = (t = [])"
| "includes_str (c # cs) t = (prefix t (c # cs) \<or> includes_str cs t)"

text \<open>
  \<open>s.split(sep)\<close> for a string separator: the pieces between the non-overlapping
  occurrences of \<open>sep\<close>, found from left to right.  An empty separator splits into code
  units.
\<close>

fun split_from :: "jsstring \<Rightarrow> jsstring \<Rightarrow> jsstring \<Rightarrow> jsstring list" where
  "split_from sep cur [] = [cur]"
| "split_from sep cur (c # cs) =
     (if sep \<noteq> [] \<and> prefix sep (c # cs)
      then cur # split_from sep [] (drop (length sep - 1) cs)
      else split_from sep (cur @ [c]) cs)"

definition split :: "jsstring \<Rightarrow> jsstring \<Rightarrow> jsstring list" where
  "split s sep = (if sep = [] then map (\<lambda>c. [c]) s else split_from sep [] s)"

text \<open>\<open>xs.join(sep)\<close> on an array of strings.\<close>

fun join :: "jsstring list \<Rightarrow> jsstring \<Rightarrow> jsstring" where
  "join [] sep = []"
| "join [x] sep = x"
| "join (x # y # ys) sep = x @ sep @ join (y # ys) sep"

text \<open>
  \<open>s.substring(a, b)\<close>: both indices are clamped to \<open>0 .. length s\<close> and swapped when
  \<open>a > b\<close>.
\<close>

definition substring :: "jsstring \<Rightarrow> int \<Rightarrow> int \<Rightarrow> jsstring" where
  "substring s a b =
     (let n = int (length s);
          a' = min (max a 0) n;
          b' = min (max b 0) n;
          lo = min a' b';
          hi = max a' b'
      in take (nat (hi - lo)) (drop (nat lo) s))"

section \<open>Character classes, case and white space\<close>

definition isDigit :: "jschar \<Rightarrow> bool" where
  "isDigit c = (48 \<le> c \<and> c \<le> 57)"

text \<open>\<open>\w\<close>: the ASCII letters, the digits and the underscore.\<close>

definition isWordChar :: "jschar \<Rightarrow> bool" where
  "isWordChar c = (isDigit c \<or> (65 \<le> c \<and> c \<le> 90) \<or> (97 \<le> c \<and> c \<le> 122) \<or> c = 95)"

text \<open>
  \<open>\s\<close>, also what \<open>trim\<close> strips: the white space and line terminator code units
  of ECMAScript.
\<close>

definition isSpace :: "jschar \<Rightarrow> bool" where
  "isSpace c =
     ((9 \<le> c \<and> c \<le> 13) \<or> c = 32 \<or> c = 160 \<or> c = 5760 \<or> (8192 \<le> c \<and> c \<le> 8202)
      \<or> c = 8232 \<or> c = 8233 \<or> c = 8239 \<or> c = 8287 \<or> c = 12288 \<or> c = 65279)"

definition trim :: "jsstring \<Rightarrow> jsstring" where
  "trim s = rev (dropWhile isSpace (rev (dropWhile isSpace s)))"

text \<open>\<open>s.endsWith(t)\<close>.\<close>

definition endsWith :: "jsstring \<Rightarrow> jsstring \<Rightarrow> bool" where
  "endsWith s t = suffix t s"

text \<open>\<open>s.indexOf(t)\<close>: the first index where \<open>t\<close> occurs, \<open>-1\<close> when it does not.\<close>

fun indexOf_from :: "nat \<Rightarrow> jsstring \<Rightarrow> jsstring \<Rightarrow> int" where
  "indexOf_from i [] t = (if t = [] then int i else -1)"
| "indexOf_from i (c # cs) t = (if prefix t (c # cs) then int i else indexOf_from (i + 1) cs t)"

definition indexOf :: "jsstring \<Rightarrow> jsstring \<Rightarrow> int" where
  "indexOf s t = indexOf_from 0 s t"

section \<open>Regular expressions\<close>

text \<open>
  The regular expressions of the program are written in the syntax tree below and run by
  a backtracking matcher with the priorities of ECMAScript: the left alternative first,
  the longest repetition first.  A class item is a code unit, a range, \<open>\d\<close>, \<open>\w\<close>
  or \<open>\s\<close>.
\<close>

datatype citem = CChar jschar | CRange jschar jschar | CDigit | CWord | CSpace

text \<open>
  Under the flag \<open>i\<close> two code units match when their canonical forms are equal; for
  the ASCII classes of the program that is equality up to the case of a letter, so a range
  also matches the other case of a letter it holds.
\<close>

definition canonicalize :: "jschar \<Rightarrow> jschar" where
  "canonicalize c = (if 97 \<le> c \<and> c \<le> 122 then c - 32 else c)"

fun citem_match :: "bool \<Rightarrow> citem \<Rightarrow> jschar \<Rightarrow> bool" where
  "citem_match ci (CChar a) c = (if ci then canonicalize a = canonicalize c else a = c)"
| "citem_match ci (CRange a b) c =
     ((a \<le> c \<and> c \<le> b)
      \<or> (ci \<and> 65 \<le> c \<and> c \<le> 90 \<and> a \<le> c + 32 \<and> c + 32 \<le> b)
      \<or> (ci \<and> 97 \<le> c \<and> c \<le> 122 \<and> a \<le> c - 32 \<and> c - 32 \<le> b))"
| "citem_match ci CDigit c = isDigit c"
| "citem_match ci CWord c = isWordChar c"
| "citem_match ci CSpace c = isSpace c"

datatype regex =
    Cls "citem list"
  | Eps
  | WordBoundary
  | Seq regex regex
  | Alt regex regex
  | Star regex
  | Group nat regex

text \<open>A literal, \<open>r+\<close> and \<open>r?\<close>.\<close>

definition lit :: "string \<Rightarrow> regex" where
  "lit s = foldr (\<lambda>c r. Seq (Cls [CChar (of_char c)]) r) s Eps"

definition plus :: "regex \<Rightarrow> regex" where
  "plus r = Seq r (Star r)"

definition opt :: "regex \<Rightarrow> regex" where
  "opt r = Alt r Eps"

text \<open>The capturing groups inside an expression: a repetition clears them each round.\<close>

fun groups_of :: "regex \<Rightarrow> nat list" where
  "groups_of (Seq r1 r2) = groups_of r1 @ groups_of r2"
| "groups_of (Alt r1 r2) = groups_of r1 @ groups_of r2"
| "groups_of (Star r) = groups_of r"
| "groups_of (Group n r) = n # groups_of r"
| "groups_of r = []"

text \<open>
  A position in the subject: its index, the code unit before it (for \<open>\b\<close>) and the
  text from it on.  The captures map a group to the text it matched last.
\<close>

record cursor =
  pos :: nat
  before :: "jschar option"
  rest :: jsstring

type_synonym captures = "nat \<rightharpoonup> jsstring"

definition start :: "jsstring \<Rightarrow> cursor" where
  "start s = \<lparr>pos = 0, before = None, rest = s\<rparr>"

definition advance :: "jschar \<Rightarrow> jsstring \<Rightarrow> cursor \<Rightarrow> cursor" where
  "advance c cs cur = \<lparr>pos = pos cur + 1, before = Some c, rest = cs\<rparr>"

definition at_word_boundary :: "cursor \<Rightarrow> bool" where
  "at_word_boundary cur =
     ((case before cur of None \<Rightarrow> False | Some a \<Rightarrow> isWordChar a)
        \<noteq> (case rest cur of [] \<Rightarrow> False | c # cs \<Rightarrow> isWordChar c))"

definition clear_groups :: "nat list \<Rightarrow> captures \<Rightarrow> captures" where
  "clear_groups gs caps = (\<lambda>n. if n \<in> set gs then None else caps n)"

text \<open>
  \<open>matches ci r cur caps\<close> lists every way \<open>r\<close> matches at \<open>cur\<close>, in the order in which
  the backtracking matcher tries them: the head is the match the engine reports.  A round
  of a repetition that consumes nothing is dropped, as ECMAScript does.
\<close>

function matches :: "bool \<Rightarrow> regex \<Rightarrow> cursor \<Rightarrow> captures \<Rightarrow> (cursor \<times> captures) list" where
  "matches ci (Cls items) cur caps =
     (case rest cur of
        [] \<Rightarrow> []
      | c # cs \<Rightarrow> if list_ex (\<lambda>it. citem_match ci it c) items
                  then [(advance c cs cur, caps)] else [])"
| "matches ci Eps cur caps = [(cur, caps)]"
| "matches ci WordBoundary cur caps = (if at_word_boundary cur then [(cur, caps)] else [])"
| "matches ci (Seq r1 r2) cur caps =
     concat (map (\<lambda>(cur', caps'). matches ci r2 cur' caps') (matches ci r1 cur caps))"
| "matches ci (Alt r1 r2) cur caps = matches ci r1 cur caps @ matches ci r2 cur caps"
| "matches ci (Star r) cur caps =
     concat (map (\<lambda>(cur', caps').
                    if length (rest cur') < length (rest cur)
                    then matches ci (Star r) cur' caps' else [])
                 (matches ci r cur (clear_groups (groups_of r) caps)))
     @ [(cur, caps)]"
| "matches ci (Group n r) cur caps =
     map (\<lambda>(cur', caps'). (cur', caps'(n \<mapsto> take (pos cur' - pos cur) (rest cur))))
         (matches ci r cur caps)"
  by pat_completeness auto
termination
  by (relation "measures [\<lambda>(ci, r, cur, caps). size r,
                          \<lambda>(ci, r, cur, caps). length (rest cur)]") auto

text \<open>The result of a successful match: where it starts, its text and its groups.\<close>

record regex_match =
  m_index :: nat
  m_text :: jsstring
  m_groups :: captures

text \<open>
  The search of \<open>exec\<close>: the first position, from \<open>cur\<close> on, where the expression
  matches.
\<close>

function search :: "bool \<Rightarrow> regex \<Rightarrow> cursor \<Rightarrow> regex_match option" where
  "search ci r cur =
     (case matches ci r cur Map.empty of
        (e, caps) # _ \<Rightarrow>
          Some \<lparr>m_index = pos cur, m_text = take (pos e - pos cur) (rest cur), m_groups = caps\<rparr>
      | [] \<Rightarrow> (case rest cur of [] \<Rightarrow> None | c # cs \<Rightarrow> search ci r (advance c cs cur)))"
  by pat_completeness auto
termination
  by (relation "measure (\<lambda>(ci, r, cur). length (rest cur))") (auto simp add: advance_def)

text \<open>\<open>s.match(r)\<close> without the flag \<open>g\<close>, and \<open>r.test(s)\<close>.\<close>

definition match_first :: "bool \<Rightarrow> regex \<Rightarrow> jsstring \<Rightarrow> regex_match option" where
  "match_first ci r s = search ci r (start s)"

definition regex_test :: "bool \<Rightarrow> regex \<Rightarrow> jsstring \<Rightarrow> bool" where
  "regex_test ci r s = (match_first ci r s \<noteq> None)"

text \<open>
  \<open>s.match(r)\<close> with the flag \<open>g\<close>: the texts of the successive matches, each search
  starting where the match before it ended, one code unit further after an empty match.
  The empty list stands for the \<open>null\<close> of a subject without a match.
\<close>

function match_all :: "bool \<Rightarrow> regex \<Rightarrow> cursor \<Rightarrow> jsstring list" where
  "match_all ci r cur =
     (case matches ci r cur Map.empty of
        (e, caps) # _ \<Rightarrow>
          take (pos e - pos cur) (rest cur) #
            (if length (rest e) < length (rest cur) then match_all ci r e
             else (case rest cur of [] \<Rightarrow> [] | c # cs \<Rightarrow> match_all ci r (advance c cs cur)))
      | [] \<Rightarrow> (case rest cur of [] \<Rightarrow> [] | c # cs \<Rightarrow> match_all ci r (advance c cs cur)))"
  by pat_completeness auto
termination
  by (relation "measure (\<lambda>(ci, r, cur). length (rest cur))") (auto simp add: advance_def)

definition match_global :: "bool \<Rightarrow> regex \<Rightarrow> jsstring \<Rightarrow> jsstring list" where
  "match_global ci r s = match_all ci r (start s)"

text \<open>
  \<open>s.matchAll(r)\<close>: as \<open>match_all\<close>, with the index of each match.
\<close>

function match_all_indexed :: "bool \<Rightarrow> regex \<Rightarrow> cursor \<Rightarrow> regex_match list" where
  "match_all_indexed ci r cur =
     (case matches ci r cur Map.empty of
        (e, caps) # _ \<Rightarrow>
          \<lparr>m_index = pos cur, m_text = take (pos e - pos cur) (rest cur), m_groups = caps\<rparr> #
            (if length (rest e) < length (rest cur) then match_all_indexed ci r e
             else (case rest cur of [] \<Rightarrow> []
                   | c # cs \<Rightarrow> match_all_indexed ci r (advance c cs cur)))
      | [] \<Rightarrow> (case rest cur of [] \<Rightarrow> []
                | c # cs \<Rightarrow> match_all_indexed ci r (advance c cs cur)))"
  by pat_completeness auto
termination
  by (relation "measure (\<lambda>(ci, r, cur). length (rest cur))") (auto simp add: advance_def)

definition matchAll :: "bool \<Rightarrow> regex \<Rightarrow> jsstring \<Rightarrow> regex_match list" where
  "matchAll ci r s = match_all_indexed ci r (start s)"

text \<open>\<open>s.replace(r, repl)\<close> with the flag \<open>g\<close> and a replacement without patterns.\<close>

function replace_all :: "bool \<Rightarrow> regex \<Rightarrow> jsstring \<Rightarrow> cursor \<Rightarrow> jsstring" where
  "replace_all ci r repl cur =
     (case matches ci r cur Map.empty of
        (e, caps) # _ \<Rightarrow>
          repl @
            (if length (rest e) < length (rest cur) then replace_all ci r repl e
             else (case rest cur of [] \<Rightarrow> []
                   | c # cs \<Rightarrow> c # replace_all ci r repl (advance c cs cur)))
      | [] \<Rightarrow> (case rest cur of [] \<Rightarrow> []
                | c # cs \<Rightarrow> c # replace_all ci r repl (advance c cs cur)))"
  by pat_completeness auto
termination
  by (relation "measure (\<lambda>(ci, r, repl, cur). length (rest cur))")
    (auto simp add: advance_def)

definition replace_global :: "bool \<Rightarrow> regex \<Rightarrow> jsstring \<Rightarrow> jsstring \<Rightarrow> jsstring" where
  "replace_global ci r s repl = replace_all ci r repl (start s)"

section \<open>The store and the HTTP responses\<close>

text \<open>
  The tables of \<open>schema.prisma\<close>, each a list of rows.  A chat refers to its document
  and a message to its chat with \<open>ON DELETE RESTRICT\<close>; a chunk refers to its document
  with \<open>ON DELETE CASCADE\<close>.  The store is always reachable: a store operation fails
  only where the database refuses it.
\<close>

record document =
  doc_id :: jsstring
  doc_title :: jsstring
  doc_content :: jsstring
  doc_markdown :: jsstring
  doc_folder :: "jsstring option"

record chat =
  chat_id :: jsstring
  chat_documentId :: jsstring

record message =
  message_id :: jsstring
  message_chatId :: jsstring
  message_role :: jsstring
  message_content :: jsstring

record chunk =
  chunk_id :: jsstring
  chunk_documentId :: jsstring
  chunk_content :: jsstring

record store =
  documents :: "document list"
  chats :: "chat list"
  messages :: "message list"
  chunks :: "chunk list"

text \<open>A thrown \<open>Error\<close> with its message.\<close>

datatype jserror = Error (message: jsstring)

text \<open>\<open>prisma.document.findUnique({ where: { id } })\<close>.\<close>

definition document_findUnique :: "store \<Rightarrow> jsstring \<Rightarrow> document option" where
  "document_findUnique s i = find (\<lambda>d. doc_id d = i) (documents s)"





text \<open>A JSON value, and the response \<open>NextResponse.json(body, { status })\<close>.\<close>

datatype json =
    JString jsstring
  | JNumber int
  | JBool bool
  | JNull
  | JArray "json list"
  | JObject "(string \<times> json) list"

record response =
  status :: nat
  body :: json


text \<open>The field \<open>error\<close> of a response body, when it has one.\<close>

definition error_field :: "response \<Rightarrow> json option" where
  "error_field r = (case body r of JObject fs \<Rightarrow> map_of fs ''error'' | _ \<Rightarrow> None)"

section \<open>\<open>DELETE\<close> on the documents endpoint\<close>




section \<open>The language runtime and the query order\<close>

text \<open>
  What the program takes from its runtime is a parameter of the model, so that nothing is
  said here about Unicode case mapping, about the rounding, the infinities and the
  \<open>NaN\<close> of floating point, or about the order in which the database returns rows:
  \<^item> \<open>toLowerCase\<close> is \<open>String.prototype.toLowerCase\<close>;
  \<^item> \<open>'n\<close> is the type of JavaScript numbers, \<open>parseFloat\<close> the global function,
    \<open>num_of\<close> the number of a non-negative integer, \<open>num_add\<close>, \<open>num_sub\<close>,
    \<open>num_mul\<close>, \<open>num_div\<close> the operators \<open>+\<close>, \<open>-\<close>, \<open>*\<close>, \<open>/\<close> on numbers,
    \<open>num_abs\<close> and \<open>num_sqrt\<close> the functions \<open>Math.abs\<close> and \<open>Math.sqrt\<close>,
    \<open>num_gt\<close> the comparison \<open>>\<close>, and \<open>num_nan\<close> the number that \<open>undefined\<close> converts to;
  \<^item> \<open>queryOrder\<close> is the order in which a \<open>findMany\<close> without \<open>orderBy\<close> returns the
    rows it selects.
  A theorem with a free runtime holds whatever these are.
\<close>

record 'n runtime =
  toLowerCase :: "jsstring \<Rightarrow> jsstring"
  parseFloat :: "jsstring \<Rightarrow> 'n"
  num_of :: "nat \<Rightarrow> 'n"
  num_add :: "'n \<Rightarrow> 'n \<Rightarrow> 'n"
  num_sub :: "'n \<Rightarrow> 'n \<Rightarrow> 'n"
  num_mul :: "'n \<Rightarrow> 'n \<Rightarrow> 'n"
  num_div :: "'n \<Rightarrow> 'n \<Rightarrow> 'n"
  num_abs :: "'n \<Rightarrow> 'n"
  num_sqrt :: "'n \<Rightarrow> 'n"
  num_gt :: "'n \<Rightarrow> 'n \<Rightarrow> bool"
  num_nan :: "'n"
  queryOrder :: "document list \<Rightarrow> document list"

section \<open>Arrays\<close>

text \<open>\<open>xs.slice(a, b)\<close> on a string or an array: a negative index counts from the end.\<close>

definition slice :: "'a list \<Rightarrow> int \<Rightarrow> int \<Rightarrow> 'a list" where
  "slice xs a b =
     (let n = int (length xs);
          from = (if a < 0 then max (n + a) 0 else min a n);
          to = (if b < 0 then max (n + b) 0 else min b n)
      in take (nat (to - from)) (drop (nat from) xs))"

section \<open>\<open>extractNumericalData\<close>\<close>

text \<open>
  What \<open>extractNumericalData\<close> reads of a search result: its content, its document title
  and its metadata (of any type).  The results of \<open>semanticSearch\<close> extend it.
\<close>

record 'm search_hit =
  hit_content :: jsstring
  hit_documentTitle :: jsstring
  hit_metadata :: 'm

record ('n, 'm) numerical_entry =
  ne_value :: 'n
  ne_isPercentage :: bool
  ne_hasCurrency :: bool
  ne_context :: jsstring
  ne_documentTitle :: jsstring
  ne_isImportant :: bool
  ne_entity :: jsstring
  ne_metadata :: 'm

text \<open>\<open>/(?:\<pounds>|\$|\<euro>)?\s*\b\d+(?:[,.]\d+)?%?\b/g\<close>\<close>

definition numberRegex :: regex where
  "numberRegex =
     Seq (opt (Alt (Cls [CChar 163]) (Alt (Cls [CChar 36]) (Cls [CChar 8364]))))
    (Seq (Star (Cls [CSpace]))
    (Seq WordBoundary
    (Seq (plus (Cls [CDigit]))
    (Seq (opt (Seq (Cls [CChar 44, CChar 46]) (plus (Cls [CDigit]))))
    (Seq (opt (Cls [CChar 37]))
         WordBoundary)))))"

text \<open>\<open>/,/g\<close>, \<open>/[\<pounds>$\<euro>]/\<close> and \<open>/[\<pounds>$\<euro>]\s*/g\<close>\<close>

definition commaRegex :: regex where
  "commaRegex = Cls [CChar 44]"

definition currencyRegex :: regex where
  "currencyRegex = Cls [CChar 163, CChar 36, CChar 8364]"

definition currencySpaceRegex :: regex where
  "currencySpaceRegex = Seq (Cls [CChar 163, CChar 36, CChar 8364]) (Star (Cls [CSpace]))"

text \<open>
  \<open>/(?:council|authority|borough|district|county|unitary|metropolitan)\s+(?:of\s+)?([A-Z][a-z]+(\s+[A-Z][a-z]+)*)/i\<close>
\<close>

definition entityRegex :: regex where
  "entityRegex =
     Seq (Alt (lit ''council'') (Alt (lit ''authority'') (Alt (lit ''borough'')
           (Alt (lit ''district'') (Alt (lit ''county'') (Alt (lit ''unitary'')
           (lit ''metropolitan'')))))))
    (Seq (plus (Cls [CSpace]))
    (Seq (opt (Seq (lit ''of'') (plus (Cls [CSpace]))))
         (Group 1
            (Seq (Cls [CRange 65 90])
            (Seq (plus (Cls [CRange 97 122]))
                 (Star (Group 2
                    (Seq (plus (Cls [CSpace]))
                    (Seq (Cls [CRange 65 90])
                         (plus (Cls [CRange 97 122])))))))))))"

definition financialKeywords :: "jsstring list" where
  "financialKeywords = map js
     [''council tax'', ''increase'', ''decrease'', ''rate'', ''percentage'', ''budget'', ''funding'',
      ''allocation'', ''spending'', ''cost'', ''expense'', ''revenue'', ''income'', ''deficit'',
      ''surplus'', ''band'', ''authority'', ''borough'', ''district'', ''county'', ''unitary'',
      ''metropolitan'']"

text \<open>
  The entry pushed for one match.  \<open>index\<close> is where the context window is centred:
  the source takes \<open>result.content.indexOf(match)\<close>, the first place where the text of
  the match occurs.
\<close>

definition numericalEntry ::
  "'n runtime \<Rightarrow> ('m, 'z) search_hit_scheme \<Rightarrow> jsstring \<Rightarrow> int \<Rightarrow> ('n, 'm) numerical_entry" where
  "numericalEntry rt result match index =
     (let cleanedMatch = replace_global False commaRegex match [];
          hasCurrency = regex_test False currencyRegex cleanedMatch;
          cleanedMatch = (if hasCurrency
                          then replace_global False currencySpaceRegex cleanedMatch []
                          else cleanedMatch);
          isPercentage = endsWith cleanedMatch (js ''%'');
          value = parseFloat rt (if isPercentage then slice cleanedMatch 0 (- 1) else cleanedMatch);
          startIndex = max 0 (index - 100);
          endIndex = min (int (length (hit_content result))) (index + int (length match) + 100);
          context = substring (hit_content result) startIndex endIndex;
          isImportant = list_ex (\<lambda>keyword. includes_str (toLowerCase rt context) (toLowerCase rt keyword))
                          financialKeywords;
          entityMatch = match_first True entityRegex context;
          entity = (case entityMatch of
                      None \<Rightarrow> []
                    | Some em \<Rightarrow>
                        (case m_groups em 1 of
                           None \<Rightarrow> []
                         | Some g \<Rightarrow> if g \<noteq> [] then trim g else []))
      in \<lparr>ne_value = value, ne_isPercentage = isPercentage, ne_hasCurrency = hasCurrency,
          ne_context = context, ne_documentTitle = hit_documentTitle result,
          ne_isImportant = isImportant, ne_entity = entity,
          ne_metadata = hit_metadata result\<rparr>)"

text \<open>The function of \<open>semanticSearch.ts\<close>: \<open>content.match(numberRegex)\<close> and \<open>indexOf\<close>.\<close>

definition extractNumericalData ::
  "'n runtime \<Rightarrow> ('m, 'z) search_hit_scheme list \<Rightarrow> ('n, 'm) numerical_entry list" where
  "extractNumericalData rt searchResults =
     concat (map (\<lambda>result.
                    map (\<lambda>match. numericalEntry rt result match (indexOf (hit_content result) match))
                        (match_global False numberRegex (hit_content result)))
                 searchResults)"

text \<open>
  The compiled function that the test file loads: \<open>content.matchAll(numberRegex)\<close>, and
  the window centred on the index of each match.
\<close>

definition extractNumericalData_dist ::
  "'n runtime \<Rightarrow> ('m, 'z) search_hit_scheme list \<Rightarrow> ('n, 'm) numerical_entry list" where
  "extractNumericalData_dist rt searchResults =
     concat (map (\<lambda>result.
                    map (\<lambda>match. numericalEntry rt result (m_text match) (int (m_index match)))
                        (matchAll False numberRegex (hit_content result)))
                 searchResults)"

text \<open>
  The property that the test \<open>extractNumericalData multiple matches context separation\<close>
  is about: the context of each entry is the window around its own match, 100 code units
  on either side, so that what lies further from a number does not enter its context.
\<close>

definition own_windows :: "jsstring \<Rightarrow> jsstring list" where
  "own_windows content =
     map (\<lambda>m. substring content (max 0 (int (m_index m) - 100))
                 (min (int (length content))
                      (int (m_index m) + int (length (m_text m)) + 100)))
         (matchAll False numberRegex content)"

section \<open>Council tax analysis: \<open>analyzeCouncilTaxData\<close>\<close>

record 'n council_tax_data =
  ct_authority :: jsstring
  ct_politicalControl :: jsstring
  ct_taxRate :: 'n
  ct_percentageChange :: 'n
  ct_year :: jsstring
  ct_authorityType :: jsstring

text \<open>
  The \<open>debug\<close> field of a result: what \<open>analyzeCouncilTaxData\<close> reports in debug mode,
  or the note of the fallback on the sample data.
\<close>

datatype debug_info =
    Debug (documentsAnalyzed: nat) (documentTitles: "jsstring list")
          (politicalControlFound: bool) (councilTaxDocFound: bool) (totalEntriesExtracted: nat)
  | SampleDebug (usingSampleData: bool) (realDocumentsAnalyzed: nat) (reason: jsstring)

record 'n analysis_result =
  labourAverage :: 'n
  conservativeAverage :: 'n
  difference :: 'n
  higherParty :: jsstring
  labourCount :: nat
  conservativeCount :: nat
  councilData :: "'n council_tax_data list"
  debug :: "debug_info option"

text \<open>
  \<open>prisma.document.findMany\<close> with \<open>where: documentIds ? { id: { in: documentIds } } : {}\<close>:
  an array of ids, the empty one too, restricts the documents to those ids.  The query
  has no \<open>orderBy\<close>: the rows come in the order of the runtime.
\<close>

definition document_findMany ::
  "'n runtime \<Rightarrow> store \<Rightarrow> jsstring list option \<Rightarrow> document list" where
  "document_findMany rt s documentIds =
     queryOrder rt
       (case documentIds of
          None \<Rightarrow> documents s
        | Some ids \<Rightarrow> filter (\<lambda>d. doc_id d \<in> set ids) (documents s))"

text \<open>
  The political-control map is a JavaScript \<open>Map\<close>: its entries in insertion order, a
  \<open>set\<close> on a key it holds replacing the value in place.
\<close>

type_synonym control_map = "(jsstring \<times> jsstring) list"

definition Map_set :: "jsstring \<Rightarrow> jsstring \<Rightarrow> control_map \<Rightarrow> control_map" where
  "Map_set k v m = AList.update k v m"

definition Map_has :: "control_map \<Rightarrow> jsstring \<Rightarrow> bool" where
  "Map_has m k = (map_of m k \<noteq> None)"

definition Map_get :: "control_map \<Rightarrow> jsstring \<Rightarrow> jsstring option" where
  "Map_get m k = map_of m k"

text \<open>
  One line of the political-control document: \<open>authority, control\<close>, kept when the
  control is Labour, Conservative or Tory, in any case.
\<close>

definition addControlLine :: "'n runtime \<Rightarrow> jsstring \<Rightarrow> control_map \<Rightarrow> control_map" where
  "addControlLine rt rawLine m =
     (let line = trim rawLine in
      if line = [] then m
      else
        let parts = map trim (split line (js '','')) in
        if length parts \<ge> 2
        then
          let authority = parts ! 0;
              control = parts ! 1
          in if toLowerCase rt control = js ''labour''
                \<or> toLowerCase rt control = js ''conservative''
                \<or> toLowerCase rt control = js ''tory''
             then Map_set (toLowerCase rt authority)
                    (if toLowerCase rt control = js ''tory'' then js ''Conservative'' else control) m
             else m
        else m)"

definition isPoliticalControlDoc :: "'n runtime \<Rightarrow> document \<Rightarrow> bool" where
  "isPoliticalControlDoc rt doc =
     (includes_str (toLowerCase rt (doc_title doc)) (js ''political control'')
      \<or> includes_str (toLowerCase rt (doc_title doc)) (js ''council control''))"

text \<open>
  The map built from the first document whose title names political control; the header
  line, a first line that holds \<open>authority\<close>, is skipped.  \<open>split\<close> returns at least one
  line.
\<close>

definition buildPoliticalControlMap :: "'n runtime \<Rightarrow> document list \<Rightarrow> control_map" where
  "buildPoliticalControlMap rt docs =
     (case find (isPoliticalControlDoc rt) docs of
        None \<Rightarrow> []
      | Some politicalControlDoc \<Rightarrow>
          let lines = split (doc_content politicalControlDoc) [10];
              startIndex = (case lines of
                              [] \<Rightarrow> 0
                            | l0 # _ \<Rightarrow>
                                if includes_str (toLowerCase rt l0) (js ''authority'') then 1 else (0::nat))
          in fold (addControlLine rt) (drop startIndex lines) [])"

text \<open>
  The partial match: the loop over the entries of the map, left at the first entry whose
  key is contained in the authority or contains it.
\<close>

fun partialMatch :: "control_map \<Rightarrow> jsstring \<Rightarrow> jsstring" where
  "partialMatch [] a = js ''Unknown''"
| "partialMatch ((key, value) # entries) a =
     (if includes_str a key \<or> includes_str key a then value else partialMatch entries a)"

text \<open>The political control of an authority: the exact match first.\<close>

definition findPoliticalControl :: "'n runtime \<Rightarrow> control_map \<Rightarrow> jsstring \<Rightarrow> jsstring" where
  "findPoliticalControl rt politicalControlMap authority =
     (if Map_has politicalControlMap (toLowerCase rt authority)
      then (case Map_get politicalControlMap (toLowerCase rt authority) of
              Some control \<Rightarrow> control
            | None \<Rightarrow> js ''Unknown'')
      else partialMatch politicalControlMap (toLowerCase rt authority))"

text \<open>\<^verbatim>\<open>/([\w\s,&'-]+)(?:,|\s+)(\d+(?:\.\d+)?)%/\<close>\<close>

definition percentageRegex :: regex where
  "percentageRegex =
     Seq (Group 1 (plus (Cls [CWord, CSpace, CChar 44, CChar 38, CChar 39, CChar 45])))
    (Seq (Alt (Cls [CChar 44]) (plus (Cls [CSpace])))
    (Seq (Group 2 (Seq (plus (Cls [CDigit]))
                       (opt (Seq (Cls [CChar 46]) (plus (Cls [CDigit]))))))
         (Cls [CChar 37])))"

text \<open>\<^verbatim>\<open>/council|borough|district|county|unitary|metropolitan/gi\<close>\<close>

definition authorityWordRegex :: regex where
  "authorityWordRegex =
     Alt (lit ''council'') (Alt (lit ''borough'') (Alt (lit ''district'')
       (Alt (lit ''county'') (Alt (lit ''unitary'') (lit ''metropolitan'')))))"

text \<open>\<open>/\<pounds>([\d,]+(?:\.\d+)?)/\<close>\<close>

definition taxRateRegex :: regex where
  "taxRateRegex =
     Seq (Cls [CChar 163])
         (Group 1 (Seq (plus (Cls [CDigit, CChar 44]))
                       (opt (Seq (Cls [CChar 46]) (plus (Cls [CDigit]))))))"

definition authorityTypeOf :: "'n runtime \<Rightarrow> jsstring \<Rightarrow> jsstring" where
  "authorityTypeOf rt line =
     (if includes_str (toLowerCase rt line) (js ''london borough'') then js ''London Borough''
      else if includes_str (toLowerCase rt line) (js ''metropolitan'') then js ''Metropolitan District''
      else if includes_str (toLowerCase rt line) (js ''unitary'') then js ''Unitary Authority''
      else if includes_str (toLowerCase rt line) (js ''county'') then js ''Shire County''
      else if includes_str (toLowerCase rt line) (js ''district'') then js ''Shire District''
      else js ''Unknown'')"

text \<open>
  The text of a group of a match; a group that took no part has no text.  The groups
  read below take part in every match of their expression.
\<close>

definition group_text :: "regex_match \<Rightarrow> nat \<Rightarrow> jsstring" where
  "group_text m n = (case m_groups m n of Some g \<Rightarrow> g | None \<Rightarrow> [])"

text \<open>One line of the council-tax document: the entry pushed when it holds a percentage.\<close>

definition councilTaxLine ::
  "'n runtime \<Rightarrow> control_map \<Rightarrow> jsstring \<Rightarrow> 'n council_tax_data list" where
  "councilTaxLine rt politicalControlMap rawLine =
     (let line = trim rawLine in
      if line = [] then []
      else
        case match_first False percentageRegex line of
          None \<Rightarrow> []
        | Some percentageMatch \<Rightarrow>
            let authorityRaw = trim (group_text percentageMatch 1);
                percentageChange = parseFloat rt (group_text percentageMatch 2);
                authority = trim (replace_global True authorityWordRegex authorityRaw []);
                authorityType = authorityTypeOf rt line;
                politicalControl = findPoliticalControl rt politicalControlMap authority;
                taxRate = (case match_first False taxRateRegex line of
                             Some taxRateMatch \<Rightarrow>
                               parseFloat rt (replace_global False commaRegex
                                             (group_text taxRateMatch 1) [])
                           | None \<Rightarrow> num_of rt 0)
            in [\<lparr>ct_authority = authority, ct_politicalControl = politicalControl,
                 ct_taxRate = taxRate, ct_percentageChange = percentageChange,
                 ct_year = js ''2025-2026'', ct_authorityType = authorityType\<rparr>])"

definition isCouncilTaxDoc :: "'n runtime \<Rightarrow> document \<Rightarrow> bool" where
  "isCouncilTaxDoc rt doc =
     (includes_str (toLowerCase rt (doc_title doc)) (js ''council tax'')
      \<or> includes_str (toLowerCase rt (doc_title doc)) (js ''tax rate'')
      \<or> includes_str (toLowerCase rt (doc_title doc)) (js ''table_8''))"

definition extractCouncilTaxData ::
  "'n runtime \<Rightarrow> control_map \<Rightarrow> document list \<Rightarrow> 'n council_tax_data list" where
  "extractCouncilTaxData rt politicalControlMap docs =
     (case find (isCouncilTaxDoc rt) docs of
        None \<Rightarrow> []
      | Some councilTaxDoc \<Rightarrow>
          concat (map (councilTaxLine rt politicalControlMap) (split (doc_content councilTaxDoc) [10])))"

text \<open>
  \<open>councils.reduce((sum, c) => sum + c.percentageChange, 0) / councils.length\<close>, and
  \<open>0\<close> for no council.
\<close>

definition averageChange :: "'n runtime \<Rightarrow> 'n council_tax_data list \<Rightarrow> 'n" where
  "averageChange rt councils =
     (if length councils > 0
      then num_div rt
             (foldl (\<lambda>sum c. num_add rt sum (ct_percentageChange c)) (num_of rt 0) councils)
             (num_of rt (length councils))
      else num_of rt 0)"

text \<open>
  The averages, the difference and the higher party, computed alike by
  \<open>analyzeCouncilTaxData\<close> and by the fallback on the sample data.
\<close>

definition summarise ::
  "'n runtime \<Rightarrow> 'n council_tax_data list \<Rightarrow> debug_info option \<Rightarrow> 'n analysis_result" where
  "summarise rt councilTaxData dbg =
     (let labourCouncils = filter (\<lambda>c. ct_politicalControl c = js ''Labour'') councilTaxData;
          conservativeCouncils =
            filter (\<lambda>c. ct_politicalControl c = js ''Conservative'') councilTaxData;
          labourAverage = averageChange rt labourCouncils;
          conservativeAverage = averageChange rt conservativeCouncils;
          difference = num_sub rt labourAverage conservativeAverage;
          higherParty = (if num_gt rt difference (num_of rt 0) then js ''Labour'' else js ''Conservative'')
      in \<lparr>labourAverage = labourAverage, conservativeAverage = conservativeAverage,
          difference = num_abs rt difference, higherParty = higherParty,
          labourCount = length labourCouncils, conservativeCount = length conservativeCouncils,
          councilData = councilTaxData, debug = dbg\<rparr>)"

text \<open>
  \<open>analyzeCouncilTaxData\<close>; the lines written to the console in debug mode are left
  out.
\<close>

definition analyzeCouncilTaxData ::
  "'n runtime \<Rightarrow> store \<Rightarrow> jsstring list option \<Rightarrow> bool \<Rightarrow> 'n analysis_result" where
  "analyzeCouncilTaxData rt s documentIds debugMode =
     (let docs = document_findMany rt s documentIds;
          politicalControlMap = buildPoliticalControlMap rt docs;
          councilTaxData = extractCouncilTaxData rt politicalControlMap docs
      in summarise rt councilTaxData
           (if debugMode
            then Some (Debug (length docs) (map doc_title docs)
                         (find (isPoliticalControlDoc rt) docs \<noteq> None)
                         (find (isCouncilTaxDoc rt) docs \<noteq> None)
                         (length councilTaxData))
            else None))"

text \<open>
  The sample data.  A numeric literal of the source denotes the number that \<open>parseFloat\<close>
  gives for its text.
\<close>

definition sampleEntry ::
  "'n runtime \<Rightarrow> string \<Rightarrow> string \<Rightarrow> string \<Rightarrow> string \<Rightarrow> string \<Rightarrow> 'n council_tax_data" where
  "sampleEntry rt authority control taxRate percentageChange authorityType =
     \<lparr>ct_authority = js authority, ct_politicalControl = js control,
      ct_taxRate = parseFloat rt (js taxRate),
      ct_percentageChange = parseFloat rt (js percentageChange), ct_year = js ''2025-2026'',
      ct_authorityType = js authorityType\<rparr>"

definition loadSampleCouncilTaxData :: "'n runtime \<Rightarrow> 'n council_tax_data list" where
  "loadSampleCouncilTaxData rt =
     [sampleEntry rt ''Manchester'' ''Labour'' ''1850.25'' ''4.99'' ''Metropolitan District'',
      sampleEntry rt ''Birmingham'' ''Labour'' ''1795.80'' ''4.75'' ''Metropolitan District'',
      sampleEntry rt ''Surrey'' ''Conservative'' ''2050.40'' ''3.99'' ''County'',
      sampleEntry rt ''Buckinghamshire'' ''Conservative'' ''1980.15'' ''3.50'' ''County'',
      sampleEntry rt ''Oxford'' ''Labour'' ''1920.30'' ''4.85'' ''District'',
      sampleEntry rt ''Windsor and Maidenhead'' ''Conservative'' ''2100.75'' ''3.75'' ''Unitary'']"

definition analyzeCouncilTaxDataWithFallback ::
  "'n runtime \<Rightarrow> store \<Rightarrow> jsstring list option \<Rightarrow> bool \<Rightarrow> 'n analysis_result" where
  "analyzeCouncilTaxDataWithFallback rt s documentIds useSampleIfEmpty =
     (let result = analyzeCouncilTaxData rt s documentIds True in
      if length (councilData result) = 0 \<and> useSampleIfEmpty
      then summarise rt (loadSampleCouncilTaxData rt)
             (Some (SampleDebug True
                      (case debug result of
                         Some (Debug n _ _ _ _) \<Rightarrow> n
                       | _ \<Rightarrow> 0)
                      (js ''No council tax data found in actual documents'')))
      else result)"

section \<open>The wording of the claim on political control\<close>

text \<open>
  The claim on political control, in its words: the exact lookup of the lower-case
  authority among the keys; failing that, the first entry whose key is a substring of
  the lower-case authority or has it as a substring; failing that, \<open>Unknown\<close>.
  \<open>sublist k a\<close> says that \<open>a\<close> is \<open>k\<close> with something before and after it.
\<close>

definition control_by_containment :: "'n runtime \<Rightarrow> control_map \<Rightarrow> jsstring \<Rightarrow> jsstring" where
  "control_by_containment rt entries authority =
     (let a = toLowerCase rt authority in
      case map_of entries a of
        Some control \<Rightarrow> control
      | None \<Rightarrow>
          (case find (\<lambda>(key, control). sublist key a \<or> sublist a key) entries of
             Some (key, control) \<Rightarrow> control
           | None \<Rightarrow> js ''Unknown''))"

section \<open>Token budget: \<open>estimateTokenCount\<close> and \<open>truncateContext\<close>\<close>

text \<open>\<open>Math.ceil(text.length / 4)\<close>.\<close>

definition estimateTokenCount :: "jsstring \<Rightarrow> int" where
  "estimateTokenCount text = \<lceil>real (length text) / 4\<rceil>"

text \<open>
  The callback of \<open>documents.map\<close> in \<open>truncateContext\<close>.  \<open>parts\<close> has at least two
  elements where \<open>parts ! 0\<close> and \<open>parts ! 1\<close> are read.
\<close>

definition truncateDoc :: "int \<Rightarrow> jsstring \<Rightarrow> jsstring" where
  "truncateDoc avgTokensPerDoc doc =
     (let parts = split doc (js ''Content: '') in
      if length parts < 2 then doc
      else
        let header = parts ! 0 @ js ''Content: '';
            content = parts ! 1;
            headerTokens = estimateTokenCount header;
            availableTokens = avgTokensPerDoc - headerTokens
        in if estimateTokenCount content > availableTokens
           then header @ (substring content 0 (availableTokens * 4) @ js ''... [truncated]'')
           else doc)"

text \<open>
  \<open>maxTokens\<close> is a JavaScript number, here a real.  \<open>filter(Boolean)\<close> drops the empty
  pieces.  When no piece is left, \<open>avgTokensPerDoc\<close> (a division by zero in the source)
  is never read, since \<open>map\<close> runs over the empty array.
\<close>

definition truncateContext :: "jsstring \<Rightarrow> real \<Rightarrow> jsstring" where
  "truncateContext context maxTokens =
     (let estimatedTokens = estimateTokenCount context in
      if real_of_int estimatedTokens \<le> maxTokens then context
      else
        let documents = filter (\<lambda>d. d \<noteq> []) (split context (js ''---''));
            avgTokensPerDoc = \<lfloor>maxTokens / real (length documents)\<rfloor>
        in join (map (truncateDoc avgTokensPerDoc) documents) (js ''---'' @ [10, 10]))"

section \<open>Markdown tables: \<open>generateMarkdownTable\<close>\<close>

text \<open>
  \<open>alignments[i] || 'left'\<close>: a missing or empty entry counts as \<open>left\<close>.  The last
  branch is the source's \<open>else\<close>, reached by any other string.
\<close>

definition alignCell :: "jsstring list \<Rightarrow> nat \<Rightarrow> jsstring" where
  "alignCell alignments i =
     (let align = (if i < length alignments \<and> alignments ! i \<noteq> []
                   then alignments ! i else js ''left'')
      in if align = js ''left'' then js '' :--- |''
         else if align = js ''center'' then js '' :---: |''
         else if align = js ''right'' then js '' ---: |''
         else js '' --- |'')"

text \<open>
  The cells have type \<open>any\<close> in the source and are converted with \<open>String(cell)\<close>; the
  conversion is the parameter \<open>toStr\<close>.
\<close>

definition rowLine :: "('a \<Rightarrow> jsstring) \<Rightarrow> 'a list \<Rightarrow> jsstring" where
  "rowLine toStr row = js ''| '' @ join (map toStr row) (js '' | '') @ js '' |'' @ [10]"

definition generateMarkdownTable ::
  "('a \<Rightarrow> jsstring) \<Rightarrow> jsstring list \<Rightarrow> 'a list list \<Rightarrow> jsstring list \<Rightarrow> jsstring" where
  "generateMarkdownTable toStr headers rows alignments =
     (if length rows = 0 then []
      else
        let table = js ''| '' @ join headers (js '' | '') @ js '' |'' @ [10];
            table = table @ js ''|'';
            table = fold (\<lambda>i t. t @ alignCell alignments i) [0 ..< length headers] table;
            table = table @ [10];
            table = fold (\<lambda>row t. t @ rowLine toStr row) rows table
        in table)"

text \<open>
  The number of lines of a text made of newline-terminated lines; \<open>None\<close> when the text
  does not end in a newline.
\<close>

definition lineCount :: "jsstring \<Rightarrow> nat option" where
  "lineCount out =
     (if out = [] then Some 0
      else if last out = 10 then Some (count_list out 10)
      else None)"

section \<open>Semantic search: \<open>createDocumentChunks\<close>, \<open>getEmbedding\<close>, \<open>semanticSearch\<close>\<close>

text \<open>
  A chunk kept in memory, with the metadata that \<open>createDocumentChunks\<close> gives it.
\<close>

record chunk_metadata =
  md_documentId :: jsstring
  md_index :: nat
  md_title :: jsstring
  md_position :: jsstring

record memory_chunk =
  mc_content :: jsstring
  mc_metadata :: chunk_metadata

text \<open>The \<open>id\<close> and \<open>title\<close> that \<open>semanticSearch\<close> selects of a document.\<close>

record doc_ref =
  ref_id :: jsstring
  ref_title :: jsstring

text \<open>An element of \<open>results\<close> before the sort, and a result as returned.\<close>

record 'n scored =
  sc_chunk :: memory_chunk
  sc_document :: doc_ref
  sc_similarity :: 'n

record 'n search_result = "chunk_metadata search_hit" +
  sr_documentId :: jsstring
  sr_similarity :: 'n

text \<open>
  What the functions do that can be seen from outside, in the order in which they do it:
  the calls of \<open>getEmbedding\<close> and of \<open>createDocumentChunks\<close>, the computation of the
  similarity of a chunk (the id of its document and its index), and the requests to the
  two text-generation services (system message and user message).
\<close>

datatype call =
    GetEmbedding jsstring
  | CreateDocumentChunks jsstring
  | Similarity jsstring nat
  | ChatCompletion jsstring jsstring
  | GeminiGenerate jsstring jsstring

text \<open>
  The state of the module: the map \<open>documentChunks\<close> and the calls made so far.
\<close>

record search_state =
  documentChunks :: "jsstring \<rightharpoonup> memory_chunk list"
  calls :: "call list"

text \<open>
  The collaborators of the module.  A service answers from the text it is given and from
  the calls made before, and may throw:
  \<^item> \<open>openaiKey\<close>: whether \<open>OPENAI_API_KEY\<close> is set (\<open>getOpenAI\<close> throws when it is not);
  \<^item> \<open>embeddings_create\<close>: the embedding that the embeddings endpoint returns;
  \<^item> \<open>splitText\<close>: the \<open>RecursiveCharacterTextSplitter\<close> with chunk size 1000 and overlap
    200;
  \<^item> \<open>array_sort\<close>: \<open>Array.prototype.sort\<close> with a comparator;
  \<^item> \<open>chat_create\<close>: the chat completion, with the \<open>content\<close> of its first choice
    (\<open>None\<close> for \<open>null\<close>);
  \<^item> \<open>gemini\<close>: the Gemini client, \<open>None\<close> when its key is not configured;
  \<^item> \<open>systemBase\<close>, \<open>systemAnalysis\<close>, \<open>systemFormatting\<close>: the three literal parts of
    the system message of \<open>multiDocumentRAG\<close>;
  \<^item> \<open>analysisSection\<close>, \<open>analysisSectionTruncated\<close>: the text that
    \<open>multiDocumentRAG\<close> appends to the user message for the numerical data and the
    entities that \<open>prepareDataForAnalysis\<close> extracts from the search results, in its two
    layouts;
  \<^item> \<open>extractAndAnalyzeData\<close>: the analysis that the RAG handler runs on the documents.
\<close>

record 'n services =
  openaiKey :: bool
  embeddings_create :: "call list \<Rightarrow> jsstring \<Rightarrow> jserror + 'n list"
  splitText :: "jsstring \<Rightarrow> jsstring list"
  array_sort :: "('n scored \<Rightarrow> 'n scored \<Rightarrow> 'n) \<Rightarrow> 'n scored list \<Rightarrow> 'n scored list"
  chat_create :: "call list \<Rightarrow> jsstring \<Rightarrow> jsstring \<Rightarrow> jserror + jsstring option"
  gemini :: "(call list \<Rightarrow> jsstring \<Rightarrow> jsstring \<Rightarrow> jserror + jsstring) option"
  systemBase :: jsstring
  systemAnalysis :: jsstring
  systemFormatting :: jsstring
  analysisSection :: "'n search_result list \<Rightarrow> jsstring"
  analysisSectionTruncated :: "'n search_result list \<Rightarrow> jsstring"
  extractAndAnalyzeData :: "document list \<Rightarrow> jserror + json"

text \<open>The decimal digits of a non-negative integer, as a template literal prints it.\<close>

fun show_nat :: "nat \<Rightarrow> jsstring" where
  "show_nat n = (if n < 10 then [48 + n] else show_nat (n div 10) @ [48 + n mod 10])"

definition record_call :: "call \<Rightarrow> search_state \<Rightarrow> search_state" where
  "record_call c st = st\<lparr>calls := calls st @ [c]\<rparr>"

text \<open>
  \<open>createDocumentChunks\<close>: the chunks of the stored document replace the entry of its id
  in the map; an unknown id throws.
\<close>

definition build_chunks :: "jsstring \<Rightarrow> document \<Rightarrow> jsstring list \<Rightarrow> memory_chunk list" where
  "build_chunks documentId document textChunks =
     map (\<lambda>i. \<lparr>mc_content = textChunks ! i,
                mc_metadata =
                  \<lparr>md_documentId = documentId, md_index = i, md_title = doc_title document,
                   md_position = js ''Chunk '' @ show_nat (i + 1) @ js '' of ''
                                   @ show_nat (length textChunks)\<rparr>\<rparr>)
         [0 ..< length textChunks]"

definition createDocumentChunks ::
  "'n services \<Rightarrow> store \<Rightarrow> jsstring \<Rightarrow> search_state \<Rightarrow> (jserror + nat) \<times> search_state" where
  "createDocumentChunks sv s documentId st0 =
     (let st = record_call (CreateDocumentChunks documentId) st0 in
      case document_findUnique s documentId of
        None \<Rightarrow> (Inl (Error (js ''Document with ID '' @ documentId @ js '' not found'')), st)
      | Some document \<Rightarrow>
          let textChunks = splitText sv (doc_content document);
              chunkList = build_chunks documentId document textChunks
          in (Inr (length textChunks),
              st\<lparr>documentChunks := (documentChunks st)(documentId \<mapsto> chunkList)\<rparr>))"

text \<open>\<open>getEmbedding\<close>.\<close>

definition getEmbedding ::
  "'n services \<Rightarrow> jsstring \<Rightarrow> search_state \<Rightarrow> (jserror + 'n list) \<times> search_state" where
  "getEmbedding sv text st =
     (if openaiKey sv then embeddings_create sv (calls st) text
      else Inl (Error (js ''OpenAI API key is not configured'')),
      record_call (GetEmbedding text) st)"

text \<open>
  \<open>cosineSimilarity\<close>: the loop runs over the indices of \<open>vecA\<close>; an element that
  \<open>vecB\<close> does not have is \<open>undefined\<close>, which the product converts to a number.
\<close>

definition cosineSimilarity :: "'n runtime \<Rightarrow> 'n list \<Rightarrow> 'n list \<Rightarrow> 'n" where
  "cosineSimilarity rt vecA vecB =
     (case fold (\<lambda>i (dotProduct, normA, normB).
                   let a = vecA ! i;
                       b = (if i < length vecB then vecB ! i else num_nan rt)
                   in (num_add rt dotProduct (num_mul rt a b),
                       num_add rt normA (num_mul rt a a),
                       num_add rt normB (num_mul rt b b)))
                [0 ..< length vecA] (num_of rt 0, num_of rt 0, num_of rt 0) of
        (dotProduct, normA, normB) \<Rightarrow>
          num_div rt dotProduct (num_mul rt (num_sqrt rt normA) (num_sqrt rt normB)))"

text \<open>The loop over the chunks of a document.\<close>

fun score_chunks ::
  "'n runtime \<Rightarrow> 'n services \<Rightarrow> 'n list \<Rightarrow> doc_ref \<Rightarrow> memory_chunk list \<Rightarrow> search_state
     \<Rightarrow> 'n scored list \<Rightarrow> (jserror + 'n scored list) \<times> search_state" where
  "score_chunks rt sv queryEmbedding document [] st results = (Inr results, st)"
| "score_chunks rt sv queryEmbedding document (chunk # others) st results =
     (case getEmbedding sv (mc_content chunk) st of
        (Inl e, st1) \<Rightarrow> (Inl e, st1)
      | (Inr embedding, st1) \<Rightarrow>
          let similarity = cosineSimilarity rt queryEmbedding embedding;
              st2 = record_call (Similarity (ref_id document) (md_index (mc_metadata chunk))) st1
          in score_chunks rt sv queryEmbedding document others st2
               (results @ [\<lparr>sc_chunk = chunk, sc_document = document,
                            sc_similarity = similarity\<rparr>]))"

text \<open>
  The chunks of a document in the loop over the documents: those of the map, and for a
  document without an entry those that \<open>createDocumentChunks\<close> stores first
  (\<open>documentChunks.get(document.id) || []\<close> after it).
\<close>

definition chunks_of_document ::
  "'n services \<Rightarrow> store \<Rightarrow> doc_ref \<Rightarrow> search_state
     \<Rightarrow> (jserror + memory_chunk list) \<times> search_state" where
  "chunks_of_document sv s document st =
     (case documentChunks st (ref_id document) of
        Some found \<Rightarrow> (Inr found, st)
      | None \<Rightarrow>
          (case createDocumentChunks sv s (ref_id document) st of
             (Inl e, st1) \<Rightarrow> (Inl e, st1)
           | (Inr n, st1) \<Rightarrow>
               (Inr (case documentChunks st1 (ref_id document) of
                       Some created \<Rightarrow> created
                     | None \<Rightarrow> []), st1)))"

text \<open>The loop over the documents.\<close>

fun score_documents ::
  "'n runtime \<Rightarrow> 'n services \<Rightarrow> store \<Rightarrow> 'n list \<Rightarrow> doc_ref list \<Rightarrow> search_state
     \<Rightarrow> 'n scored list \<Rightarrow> (jserror + 'n scored list) \<times> search_state" where
  "score_documents rt sv s queryEmbedding [] st results = (Inr results, st)"
| "score_documents rt sv s queryEmbedding (document # docs) st results =
     (case chunks_of_document sv s document st of
        (Inl e, st1) \<Rightarrow> (Inl e, st1)
      | (Inr chunkList, st1) \<Rightarrow>
          (case score_chunks rt sv queryEmbedding document chunkList st1 results of
             (Inl e, st2) \<Rightarrow> (Inl e, st2)
           | (Inr results', st2) \<Rightarrow> score_documents rt sv s queryEmbedding docs st2 results'))"

definition format_result :: "'n scored \<Rightarrow> 'n search_result" where
  "format_result r =
     \<lparr>hit_content = mc_content (sc_chunk r), hit_documentTitle = ref_title (sc_document r),
      hit_metadata = mc_metadata (sc_chunk r), sr_documentId = ref_id (sc_document r),
      sr_similarity = sc_similarity r\<rparr>"

text \<open>The comparator \<open>(a, b) => b.similarity - a.similarity\<close>.\<close>

definition by_similarity :: "'n runtime \<Rightarrow> 'n scored \<Rightarrow> 'n scored \<Rightarrow> 'n" where
  "by_similarity rt a b = num_sub rt (sc_similarity b) (sc_similarity a)"

text \<open>
  \<open>semanticSearch\<close>, for an integer \<open>limit\<close>.  A throw leaves the state as the calls
  before it made it.
\<close>

definition semanticSearch ::
  "'n runtime \<Rightarrow> 'n services \<Rightarrow> store \<Rightarrow> jsstring \<Rightarrow> int \<Rightarrow> search_state
     \<Rightarrow> (jserror + 'n search_result list) \<times> search_state" where
  "semanticSearch rt sv s query limit st =
     (case getEmbedding sv query st of
        (Inl e, st1) \<Rightarrow> (Inl e, st1)
      | (Inr queryEmbedding, st1) \<Rightarrow>
          let docRefs = map (\<lambda>d. \<lparr>ref_id = doc_id d, ref_title = doc_title d\<rparr>)
                            (document_findMany rt s None)
          in case score_documents rt sv s queryEmbedding docRefs st1 [] of
               (Inl e, st2) \<Rightarrow> (Inl e, st2)
             | (Inr results, st2) \<Rightarrow>
                 let topResults = slice (array_sort sv (by_similarity rt) results) 0 limit
                 in (Inr (map format_result topResults), st2))"

section \<open>The wording of the claims on the search\<close>

text \<open>
  The order of the calls that the claim on \<open>documentChunks\<close> is about: the similarity of
  a chunk is computed only for a document that is known, one that had an entry in the
  map or whose chunks \<open>createDocumentChunks\<close> has created before.
\<close>

fun created_before_scored :: "(jsstring \<Rightarrow> bool) \<Rightarrow> call list \<Rightarrow> bool" where
  "created_before_scored known [] = True"
| "created_before_scored known (CreateDocumentChunks k # cs) =
     created_before_scored (known(k := True)) cs"
| "created_before_scored known (Similarity k i # cs) =
     (known k \<and> created_before_scored known cs)"
| "created_before_scored known (c # cs) = created_before_scored known cs"

text \<open>The texts for which an embedding was requested, in the order of the requests.\<close>

fun embedding_texts :: "call list \<Rightarrow> jsstring list" where
  "embedding_texts [] = []"
| "embedding_texts (GetEmbedding t # cs) = t # embedding_texts cs"
| "embedding_texts (c # cs) = embedding_texts cs"

text \<open>
  The stronger order that the claim states word for word: no chunks are created once a
  similarity has been computed.
\<close>

definition is_creation :: "call \<Rightarrow> bool" where
  "is_creation c = (case c of CreateDocumentChunks k \<Rightarrow> True | _ \<Rightarrow> False)"

fun creations_before_any_similarity :: "call list \<Rightarrow> bool" where
  "creations_before_any_similarity [] = True"
| "creations_before_any_similarity (Similarity k i # cs) = (\<not> list_ex is_creation cs)"
| "creations_before_any_similarity (c # cs) = creations_before_any_similarity cs"

text \<open>
  The order that the claim on the results is about: \<open>arranged\<close> holds the elements of
  \<open>xs\<close>, and no element is followed by one of greater similarity.
\<close>

definition not_greater :: "'n runtime \<Rightarrow> 'n scored \<Rightarrow> 'n scored \<Rightarrow> bool" where
  "not_greater rt a b = (\<not> num_gt rt (sc_similarity b) (sc_similarity a))"

definition non_increasing_arrangement ::
  "'n runtime \<Rightarrow> 'n scored list \<Rightarrow> 'n scored list \<Rightarrow> bool" where
  "non_increasing_arrangement rt arranged xs =
     (mset arranged = mset xs \<and> sorted_wrt (not_greater rt) arranged)"

section \<open>\<open>multiDocumentRAG\<close>\<close>

definition analysisKeywords :: "jsstring list" where
  "analysisKeywords = map js
     [''average'', ''mean'', ''median'', ''calculate'', ''sum'', ''total'', ''percentage'',
      ''compare'', ''difference'', ''higher'', ''lower'', ''more'', ''less'', ''increase'',
      ''decrease'', ''trend'', ''analysis'', ''statistics'', ''statistical'', ''correlation'',
      ''relationship'', ''council tax'', ''raise'', ''raised'', ''political control'',
      ''labour'', ''conservative'', ''lib dem'', ''liberal democrat'', ''green'',
      ''independent'', ''party'', ''controlled'']"

definition requiresDataAnalysis :: "'n runtime \<Rightarrow> jsstring \<Rightarrow> bool" where
  "requiresDataAnalysis rt query =
     list_ex (\<lambda>keyword. includes_str (toLowerCase rt query) (toLowerCase rt keyword))
       analysisKeywords"

text \<open>
  The excerpt of one search result and the context,
  \<open>searchResults.map(...).join('\n\n')\<close>.
\<close>

definition excerpt :: "'n search_result \<Rightarrow> jsstring" where
  "excerpt result =
     js ''Document: '' @ hit_documentTitle result @ js '' (''
       @ (if md_position (hit_metadata result) = [] then js ''Unknown position''
          else md_position (hit_metadata result))
       @ js '')'' @ [10] @ js ''Content: '' @ hit_content result @ [10] @ js ''---''"

definition rag_context :: "'n search_result list \<Rightarrow> jsstring" where
  "rag_context searchResults = join (map excerpt searchResults) [10, 10]"

definition rag_systemMessage :: "'n services \<Rightarrow> bool \<Rightarrow> jsstring" where
  "rag_systemMessage sv needsAnalysis =
     systemBase sv @ (if needsAnalysis then systemAnalysis sv else []) @ systemFormatting sv"

text \<open>\<open>`Query: ${query}\n\nDocument Excerpts:\n${context}`\<close>\<close>

definition queryAndExcerpts :: "jsstring \<Rightarrow> jsstring \<Rightarrow> jsstring" where
  "queryAndExcerpts query context =
     js ''Query: '' @ query @ [10, 10] @ js ''Document Excerpts:'' @ [10] @ context"

text \<open>The threshold for Gemini and the limits for the context.\<close>

definition geminiThreshold :: int where
  "geminiThreshold = 100000"

definition maxContextTokens :: int where
  "maxContextTokens = 7000"

text \<open>
  The user message and the context that go to the chat completion: both as built at
  first, or both rebuilt from the truncated context when the estimate exceeds 8000
  tokens.
\<close>

definition rag_totalTokens :: "'n runtime \<Rightarrow> 'n services \<Rightarrow> jsstring \<Rightarrow> 'n search_result list \<Rightarrow> int" where
  "rag_totalTokens rt sv query searchResults =
     (let needsAnalysis = requiresDataAnalysis rt query;
          userMessage = queryAndExcerpts query (rag_context searchResults)
                          @ (if needsAnalysis then analysisSection sv searchResults else [])
      in estimateTokenCount (rag_systemMessage sv needsAnalysis) + estimateTokenCount userMessage)"

definition rag_truncatedContext ::
  "'n runtime \<Rightarrow> 'n services \<Rightarrow> jsstring \<Rightarrow> 'n search_result list \<Rightarrow> jsstring" where
  "rag_truncatedContext rt sv query searchResults =
     (if rag_totalTokens rt sv query searchResults > 8000
      then truncateContext (rag_context searchResults) (real_of_int maxContextTokens)
      else rag_context searchResults)"

definition rag_userMessage ::
  "'n runtime \<Rightarrow> 'n services \<Rightarrow> jsstring \<Rightarrow> 'n search_result list \<Rightarrow> jsstring" where
  "rag_userMessage rt sv query searchResults =
     (let needsAnalysis = requiresDataAnalysis rt query in
      if rag_totalTokens rt sv query searchResults > 8000
      then queryAndExcerpts query (rag_truncatedContext rt sv query searchResults)
             @ (if needsAnalysis then analysisSectionTruncated sv searchResults else [])
      else queryAndExcerpts query (rag_context searchResults)
             @ (if needsAnalysis then analysisSection sv searchResults else []))"

text \<open>\<open>content || 'No response generated'\<close>.\<close>

definition content_or_default :: "jsstring option \<Rightarrow> jsstring" where
  "content_or_default c =
     (case c of
        None \<Rightarrow> js ''No response generated''
      | Some t \<Rightarrow> if t = [] then js ''No response generated'' else t)"

definition tooLarge :: jsstring where
  "tooLarge = js ''Request too large''"

text \<open>The user message of the retry, with half of the context budget.\<close>

definition reducedUserMessage :: "jsstring \<Rightarrow> jsstring \<Rightarrow> jsstring" where
  "reducedUserMessage query truncatedContext =
     queryAndExcerpts query
       (truncateContext truncatedContext (real_of_int (maxContextTokens div 2)))
       @ [10, 10]
       @ js ''Note: Document excerpts have been significantly truncated due to length constraints.''"

definition reducedNote :: jsstring where
  "reducedNote =
     [10, 10] @ js ''*Note: Analysis was performed with reduced document context due to length constraints.*''"

text \<open>
  One chat completion: the request is recorded and the service answers from the calls
  made before.
\<close>

definition chatCompletion ::
  "'n services \<Rightarrow> jsstring \<Rightarrow> jsstring \<Rightarrow> search_state
     \<Rightarrow> (jserror + jsstring option) \<times> search_state" where
  "chatCompletion sv systemMessage userMessage st =
     (chat_create sv (calls st) systemMessage userMessage,
      record_call (ChatCompletion systemMessage userMessage) st)"

text \<open>
  The inner \<open>try\<close> and its \<open>catch\<close>: the completion; on an error whose message holds
  \<open>Request too large\<close> one more completion with the reduced message, whose error, if
  any, leaves the \<open>catch\<close>; every other error is thrown again.
\<close>

definition completeWithRetry ::
  "'n services \<Rightarrow> jsstring \<Rightarrow> jsstring \<Rightarrow> jsstring \<Rightarrow> jsstring \<Rightarrow> search_state
     \<Rightarrow> (jserror + jsstring) \<times> search_state" where
  "completeWithRetry sv systemMessage userMessage query truncatedContext st =
     (case chatCompletion sv systemMessage userMessage st of
        (Inr c, st1) \<Rightarrow> (Inr (content_or_default c), st1)
      | (Inl apiError, st1) \<Rightarrow>
          if message apiError \<noteq> [] \<and> includes_str (message apiError) tooLarge
          then (case chatCompletion sv systemMessage
                       (reducedUserMessage query truncatedContext) st1 of
                  (Inr c, st2) \<Rightarrow> (Inr (content_or_default c @ reducedNote), st2)
                | (Inl e, st2) \<Rightarrow> (Inl e, st2))
          else (Inl apiError, st1))"

text \<open>The branch for large prompts.\<close>

definition generateWithGemini ::
  "'n services \<Rightarrow> jsstring \<Rightarrow> jsstring \<Rightarrow> search_state \<Rightarrow> (jserror + jsstring) \<times> search_state" where
  "generateWithGemini sv systemMessage userMessage st =
     (case gemini sv of
        None \<Rightarrow>
          (Inl (Error (js ''Gemini API key is not configured. Please add GEMINI_API_KEY to your .env.local file.'')),
           st)
      | Some generateContent \<Rightarrow>
          (case generateContent (calls st) systemMessage userMessage of
             Inr text \<Rightarrow> Inr text
           | Inl geminiError \<Rightarrow>
               Inl (Error (js ''Error using Gemini API: ''
                            @ (if message geminiError = [] then js ''Unknown error''
                               else message geminiError))),
           record_call (GeminiGenerate systemMessage userMessage) st))"

text \<open>The body of the outer \<open>try\<close>.\<close>

definition multiDocumentRAG_try ::
  "'n runtime \<Rightarrow> 'n services \<Rightarrow> store \<Rightarrow> jsstring \<Rightarrow> int \<Rightarrow> search_state
     \<Rightarrow> (jserror + jsstring) \<times> search_state" where
  "multiDocumentRAG_try rt sv s query limit st =
     (case semanticSearch rt sv s query limit st of
        (Inl e, st1) \<Rightarrow> (Inl e, st1)
      | (Inr searchResults, st1) \<Rightarrow>
          let systemMessage = rag_systemMessage sv (requiresDataAnalysis rt query) in
          if rag_totalTokens rt sv query searchResults > geminiThreshold
          then generateWithGemini sv systemMessage
                 (queryAndExcerpts query (rag_context searchResults)
                    @ (if requiresDataAnalysis rt query then analysisSection sv searchResults
                       else []))
                 st1
          else if \<not> openaiKey sv
          then (Inl (Error (js ''OpenAI API key is not configured'')), st1)
          else completeWithRetry sv systemMessage (rag_userMessage rt sv query searchResults)
                 query (rag_truncatedContext rt sv query searchResults) st1)"

definition rateLimitText :: jsstring where
  "rateLimitText =
     js ''The analysis could not be completed because the documents contain too much text. Please try a more specific question or upload smaller documents.''"

text \<open>
  \<open>multiDocumentRAG\<close>: the outer \<open>catch\<close> returns a fixed text for an error whose message
  holds \<open>429\<close> and throws every other error again.
\<close>

definition multiDocumentRAG ::
  "'n runtime \<Rightarrow> 'n services \<Rightarrow> store \<Rightarrow> jsstring \<Rightarrow> int \<Rightarrow> search_state
     \<Rightarrow> (jserror + jsstring) \<times> search_state" where
  "multiDocumentRAG rt sv s query limit st =
     (case multiDocumentRAG_try rt sv s query limit st of
        (Inr text, st1) \<Rightarrow> (Inr text, st1)
      | (Inl error, st1) \<Rightarrow>
          if includes_str (message error) (js ''429'') then (Inr rateLimitText, st1)
          else (Inl error, st1))"

section \<open>The search and RAG handlers\<close>

text \<open>
  The body of a reply of these handlers: \<open>{ error }\<close>, \<open>{ results }\<close>, or
  \<open>{ response, analysisResults, success: true }\<close>.
\<close>

datatype 'n reply_body =
    ErrorJson jsstring
  | ResultsJson "'n search_result list"
  | AnswerJson jsstring "json option"

record 'n reply =
  reply_status :: nat
  reply_body :: "'n reply_body"

text \<open>\<open>error.message || fallback\<close>.\<close>

definition message_or :: "jserror \<Rightarrow> string \<Rightarrow> jsstring" where
  "message_or e fallback = (if message e = [] then js fallback else message e)"

text \<open>
  \<open>parseInt(text, 10)\<close>: white space, a sign, digits; \<open>None\<close> is \<open>NaN\<close>.
\<close>

definition parseInt10 :: "jsstring \<Rightarrow> int option" where
  "parseInt10 text =
     (let t = dropWhile isSpace text;
          negative = (case t of c # cs \<Rightarrow> c = 45 | [] \<Rightarrow> False);
          u = (case t of c # cs \<Rightarrow> if c = 45 \<or> c = 43 then cs else t | [] \<Rightarrow> []);
          ds = takeWhile isDigit u
      in if ds = [] then None
         else Some ((if negative then - 1 else 1)
                      * int (foldl (\<lambda>a c. 10 * a + (c - 48)) 0 ds)))"

text \<open>The test \<open>!query\<close> on a value that is a string, \<open>null\<close> or \<open>undefined\<close>.\<close>

definition present :: "jsstring option \<Rightarrow> jsstring option" where
  "present q = (case q of None \<Rightarrow> None | Some t \<Rightarrow> if t = [] then None else Some t)"

text \<open>
  \<open>limitParam ? parseInt(limitParam, 10) : 5\<close>.  A limit that is \<open>NaN\<close> is passed as
  \<open>0\<close>, which is how \<open>slice\<close> reads it.
\<close>

definition searchLimit :: "jsstring option \<Rightarrow> int" where
  "searchLimit limitParam =
     (case present limitParam of
        None \<Rightarrow> 5
      | Some p \<Rightarrow> (case parseInt10 p of Some n \<Rightarrow> n | None \<Rightarrow> 0))"

text \<open>\<open>GET\<close> of the search route.\<close>

definition GET_search ::
  "'n runtime \<Rightarrow> 'n services \<Rightarrow> store \<Rightarrow> jsstring option \<Rightarrow> jsstring option \<Rightarrow> search_state
     \<Rightarrow> 'n reply \<times> search_state" where
  "GET_search rt sv s queryParam limitParam st =
     (case present queryParam of
        None \<Rightarrow> (\<lparr>reply_status = 400, reply_body = ErrorJson (js ''Query parameter is required'')\<rparr>, st)
      | Some query \<Rightarrow>
          (case semanticSearch rt sv s query (searchLimit limitParam) st of
             (Inr results, st1) \<Rightarrow> (\<lparr>reply_status = 200, reply_body = ResultsJson results\<rparr>, st1)
           | (Inl error, st1) \<Rightarrow>
               (\<lparr>reply_status = 500,
                 reply_body = ErrorJson (message_or error ''An error occurred during semantic search'')\<rparr>,
                st1)))"

text \<open>The body of a request to the RAG route, as \<open>request.json()\<close> returns it.\<close>

record rag_request =
  rq_query :: "jsstring option"
  rq_limit :: "int option"
  rq_performAnalysis :: bool

definition councilTaxKeywords :: "jsstring list" where
  "councilTaxKeywords = map js
     [''council tax'', ''tax increase'', ''tax rate'', ''local authority'',
      ''political control'', ''labour council'', ''conservative council'', ''lib dem council'',
      ''raise council tax'', ''council tax comparison'', ''average council tax'']"

definition isCouncilTaxQuery :: "'n runtime \<Rightarrow> jsstring \<Rightarrow> bool" where
  "isCouncilTaxQuery rt query =
     list_ex (\<lambda>keyword. includes_str (toLowerCase rt query) (toLowerCase rt keyword))
       councilTaxKeywords"

text \<open>\<open>limit || 10\<close>.\<close>

definition documentLimit :: "rag_request \<Rightarrow> int" where
  "documentLimit rq = (case rq_limit rq of None \<Rightarrow> 10 | Some n \<Rightarrow> if n = 0 then 10 else n)"

text \<open>
  The analysis of the RAG route, in its own \<open>try\<close>: a failure is logged and the handler
  goes on without the results.
\<close>

definition analysisResultsOf ::
  "'n runtime \<Rightarrow> 'n services \<Rightarrow> store \<Rightarrow> rag_request \<Rightarrow> jsstring \<Rightarrow> json option" where
  "analysisResultsOf rt sv s rq query =
     (if rq_performAnalysis rq \<or> isCouncilTaxQuery rt query
      then (case extractAndAnalyzeData sv (document_findMany rt s None) of
              Inr a \<Rightarrow> Some a
            | Inl analysisError \<Rightarrow> None)
      else None)"

text \<open>\<open>POST\<close> of the RAG route.  \<open>request.json()\<close> throws on a body that is not JSON.\<close>

definition POST_rag ::
  "'n runtime \<Rightarrow> 'n services \<Rightarrow> store \<Rightarrow> jserror + rag_request \<Rightarrow> search_state
     \<Rightarrow> 'n reply \<times> search_state" where
  "POST_rag rt sv s requestBody st =
     (case requestBody of
        Inl error \<Rightarrow>
          (\<lparr>reply_status = 500,
            reply_body = ErrorJson (message_or error ''An error occurred during multi-document RAG'')\<rparr>,
           st)
      | Inr rq \<Rightarrow>
          (case present (rq_query rq) of
             None \<Rightarrow>
               (\<lparr>reply_status = 400, reply_body = ErrorJson (js ''Query parameter is required'')\<rparr>,
                st)
           | Some query \<Rightarrow>
               let analysisResults = analysisResultsOf rt sv s rq query
               in case multiDocumentRAG rt sv s query (documentLimit rq) st of
                    (Inr response, st1) \<Rightarrow>
                      (\<lparr>reply_status = 200, reply_body = AnswerJson response analysisResults\<rparr>, st1)
                  | (Inl error, st1) \<Rightarrow>
                      (\<lparr>reply_status = 500,
                        reply_body = ErrorJson
                          (message_or error ''An error occurred during multi-document RAG'')\<rparr>,
                       st1)))"

section \<open>The wording of the claim on the handlers\<close>

text \<open>A reply that is a JSON error with a status from 400 to 599.\<close>

definition is_error_reply :: "'n reply \<Rightarrow> bool" where
  "is_error_reply r =
     (400 \<le> reply_status r \<and> reply_status r \<le> 599
      \<and> (case reply_body r of ErrorJson m \<Rightarrow> True | _ \<Rightarrow> False))"

section \<open>An example runtime\<close>

text \<open>
  A runtime to evaluate the model on given inputs: it lower-cases the letters \<open>A\<close> to
  \<open>Z\<close>, computes with exact decimal numbers and \<open>NaN\<close>, and returns rows in the order
  in which they are stored.  It agrees with JavaScript on ASCII text and wherever the
  arithmetic of the program is exact; no theorem on the program depends on it.
\<close>

definition lowerChar :: "jschar \<Rightarrow> jschar" where
  "lowerChar c = (if 65 \<le> c \<and> c \<le> 90 then c + 32 else c)"

datatype jsnum = Num real | NaN

fun jsnum_add :: "jsnum \<Rightarrow> jsnum \<Rightarrow> jsnum" where
  "jsnum_add (Num x) (Num y) = Num (x + y)"
| "jsnum_add _ _ = NaN"

fun jsnum_sub :: "jsnum \<Rightarrow> jsnum \<Rightarrow> jsnum" where
  "jsnum_sub (Num x) (Num y) = Num (x - y)"
| "jsnum_sub _ _ = NaN"

fun jsnum_mul :: "jsnum \<Rightarrow> jsnum \<Rightarrow> jsnum" where
  "jsnum_mul (Num x) (Num y) = Num (x * y)"
| "jsnum_mul _ _ = NaN"

fun jsnum_div :: "jsnum \<Rightarrow> jsnum \<Rightarrow> jsnum" where
  "jsnum_div (Num x) (Num y) = (if y = 0 then NaN else Num (x / y))"
| "jsnum_div _ _ = NaN"

fun jsnum_abs :: "jsnum \<Rightarrow> jsnum" where
  "jsnum_abs (Num x) = Num \<bar>x\<bar>"
| "jsnum_abs NaN = NaN"

fun jsnum_sqrt :: "jsnum \<Rightarrow> jsnum" where
  "jsnum_sqrt (Num x) = (if x < 0 then NaN else Num (sqrt x))"
| "jsnum_sqrt NaN = NaN"

fun jsnum_gt :: "jsnum \<Rightarrow> jsnum \<Rightarrow> bool" where
  "jsnum_gt (Num x) (Num y) = (x > y)"
| "jsnum_gt _ _ = False"

definition digitsValue :: "jsstring \<Rightarrow> nat" where
  "digitsValue ds = foldl (\<lambda>a c. 10 * a + (c - 48)) 0 ds"

text \<open>
  Leading white space, an optional sign, digits and an optional fraction; a text without
  a digit there gives \<open>NaN\<close>.
\<close>

definition decimalValue :: "jsstring \<Rightarrow> jsnum" where
  "decimalValue s =
     (let t = dropWhile isSpace s;
          sign = (case t of c # cs \<Rightarrow> if c = 45 then - 1 else 1 | [] \<Rightarrow> (1::real));
          u = (case t of c # cs \<Rightarrow> if c = 45 \<or> c = 43 then cs else t | [] \<Rightarrow> []);
          ip = takeWhile isDigit u;
          after = dropWhile isDigit u;
          fp = (case after of c # cs \<Rightarrow> if c = 46 then takeWhile isDigit cs else [] | [] \<Rightarrow> [])
      in if ip = [] \<and> fp = [] then NaN
         else Num (sign * (real (digitsValue ip) + real (digitsValue fp) / 10 ^ length fp)))"

definition example_runtime :: "jsnum runtime" where
  "example_runtime =
     \<lparr>toLowerCase = map lowerChar, parseFloat = decimalValue, num_of = (\<lambda>n. Num (real n)),
      num_add = jsnum_add, num_sub = jsnum_sub, num_mul = jsnum_mul, num_div = jsnum_div,
      num_abs = jsnum_abs, num_sqrt = jsnum_sqrt, num_gt = jsnum_gt, num_nan = NaN,
      queryOrder = (\<lambda>rows. rows)\<rparr>"

section \<open>Example services\<close>

text \<open>
  Services to evaluate the model on given inputs: every text is one chunk, the embedding
  of a text is a vector of two numbers read off its first code unit, the sort is an
  insertion sort with the comparator, and the first chat completion throws the given
  message, if any, while the later ones answer.
\<close>

fun insert_by :: "('a \<Rightarrow> 'a \<Rightarrow> jsnum) \<Rightarrow> 'a \<Rightarrow> 'a list \<Rightarrow> 'a list" where
  "insert_by cmp x [] = [x]"
| "insert_by cmp x (y # ys) =
     (if jsnum_gt (cmp x y) (Num 0) then y # insert_by cmp x ys else x # y # ys)"

definition sort_by :: "('a \<Rightarrow> 'a \<Rightarrow> jsnum) \<Rightarrow> 'a list \<Rightarrow> 'a list" where
  "sort_by cmp xs = foldr (insert_by cmp) xs []"

definition example_embedding :: "jsstring \<Rightarrow> jsnum list" where
  "example_embedding t =
     (case t of
        [] \<Rightarrow> [Num 1, Num 0]
      | c # cs \<Rightarrow> if c = 120 then [Num 1, Num 0]
                  else if c = 121 then [Num 0, Num 1]
                  else [Num 3, Num 4])"

definition no_chat_yet :: "call list \<Rightarrow> bool" where
  "no_chat_yet h = (\<not> list_ex (\<lambda>c. case c of ChatCompletion a b \<Rightarrow> True | _ \<Rightarrow> False) h)"

definition example_services :: "jsstring option \<Rightarrow> jsnum services" where
  "example_services firstError =
     \<lparr>openaiKey = True,
      embeddings_create = (\<lambda>h t. Inr (example_embedding t)),
      splitText = (\<lambda>t. [t]),
      array_sort = sort_by,
      chat_create = (\<lambda>h sys user.
         case firstError of
           None \<Rightarrow> Inr (Some (js ''answer''))
         | Some m \<Rightarrow> if no_chat_yet h then Inl (Error m) else Inr (Some (js ''answer''))),
      gemini = None,
      systemBase = js ''You are BlueEdge.'',
      systemAnalysis = js ''This query requires data analysis.'',
      systemFormatting = js ''FORMATTING REQUIREMENTS'',
      analysisSection = (\<lambda>rs. []),
      analysisSectionTruncated = (\<lambda>rs. []),
      extractAndAnalyzeData = (\<lambda>docs. Inr JNull)\<rparr>"

definition empty_state :: search_state where
  "empty_state = \<lparr>documentChunks = Map.empty, calls = []\<rparr>"

text \<open>
  A state where the first document of \<open>example_store\<close> has an entry in the map, with a
  chunk that is not the current content of the document.
\<close>

definition warm_state :: search_state where
  "warm_state =
     \<lparr>documentChunks =
        [js ''d1'' \<mapsto>
           [\<lparr>mc_content = js ''y'',
             mc_metadata = \<lparr>md_documentId = js ''d1'', md_index = 0, md_title = js ''A'',
                            md_position = js ''Chunk 1 of 1''\<rparr>\<rparr>]],
      calls = []\<rparr>"

section \<open>Example data\<close>

text \<open>A store with two documents, a chat for each, three messages and a chunk.\<close>

definition example_store :: store where
  "example_store =
     \<lparr>documents = [\<lparr>doc_id = js ''d1'', doc_title = js ''A'', doc_content = js ''x'',
                     doc_markdown = js ''x'', doc_folder = None\<rparr>,
                   \<lparr>doc_id = js ''d2'', doc_title = js ''B'', doc_content = js ''y'',
                     doc_markdown = js ''y'', doc_folder = None\<rparr>],
      chats = [\<lparr>chat_id = js ''c1'', chat_documentId = js ''d1''\<rparr>,
               \<lparr>chat_id = js ''c2'', chat_documentId = js ''d2''\<rparr>],
      messages = [\<lparr>message_id = js ''m1'', message_chatId = js ''c1'',
                    message_role = js ''user'', message_content = js ''hello''\<rparr>,
                  \<lparr>message_id = js ''m2'', message_chatId = js ''c2'',
                    message_role = js ''user'', message_content = js ''hi''\<rparr>,
                  \<lparr>message_id = js ''m3'', message_chatId = js ''c1'',
                    message_role = js ''assistant'', message_content = js ''yes''\<rparr>],
      chunks = [\<lparr>chunk_id = js ''k1'', chunk_documentId = js ''d1'', chunk_content = js ''x''\<rparr>]\<rparr>"

text \<open>
  The search result of the test \<open>extractNumericalData multiple matches context separation\<close>:
  two prices, 150 letters apart.
\<close>


definition test_content :: jsstring where
  "test_content =
     js ''Cost was '' @ [163] @ js ''10.'' @ replicate 150 97
       @ js ''Later cost became '' @ [163] @ js ''20.''"

definition test_result :: "unit search_hit" where
  "test_result = \<lparr>hit_content = test_content, hit_documentTitle = js ''Doc'', hit_metadata = ()\<rparr>"

text \<open>
  A result where a price comes back: \<open>\<pounds>10\<close> and \<open>\<pounds>20\<close> at the start, 150 letters, and
  \<open>\<pounds>10\<close> again.
\<close>

definition repeat_content :: jsstring where
  "repeat_content =
     js ''Cost was '' @ [163] @ js ''10, then '' @ [163] @ js ''20.'' @ replicate 150 97
       @ js ''Later cost became '' @ [163] @ js ''10.''"

definition repeat_result :: "unit search_hit" where
  "repeat_result =
     \<lparr>hit_content = repeat_content, hit_documentTitle = js ''Doc'', hit_metadata = ()\<rparr>"

text \<open>
  A store with a political-control document and a council-tax document.
\<close>

definition council_store :: store where
  "council_store =
     \<lparr>documents =
        [\<lparr>doc_id = js ''d1'', doc_title = js ''Political Control 2025'',
          doc_content = js ''Authority,Control'' @ [10] @ js ''Manchester,Labour'' @ [10]
                          @ js ''Surrey, Tory'' @ [10] @ js ''Kent,Green'',
          doc_markdown = [], doc_folder = None\<rparr>,
         \<lparr>doc_id = js ''d2'', doc_title = js ''Council Tax 2025'',
          doc_content = js ''Manchester City Council, 4.99% '' @ [163] @ js ''1,850.25'' @ [10]
                          @ js ''West Surrey 3.5%'' @ [10] @ js ''no numbers here'' @ [10]
                          @ js ''Kent 2%'',
          doc_markdown = [], doc_folder = None\<rparr>],
      chats = [], messages = [], chunks = []\<rparr>"

section \<open>Properties of \<open>extractNumericalData\<close>\<close>

text \<open>Rules that evaluate the matcher on a given text.\<close>

lemma replicate_numeral: "replicate (numeral k) x = x # replicate (pred_numeral k) x"
  by (simp add: numeral_eq_Suc)

lemmas regex_eval =
  opt_def plus_def start_def advance_def at_word_boundary_def isDigit_def isWordChar_def
  isSpace_def clear_groups_def canonicalize_def

lemma numericalEntry_context:
  "ne_context (numericalEntry rt result match index)
     = substring (hit_content result) (max 0 (index - 100))
         (min (int (length (hit_content result))) (index + int (length match) + 100))"
  by (simp add: numericalEntry_def Let_def)

text \<open>
  The compiled function gives every entry the window around its own match, for every
  input.
\<close>

lemma extractNumericalData_dist_own_windows:
  "map ne_context (extractNumericalData_dist rt [result]) = own_windows (hit_content result)"
  by (simp add: extractNumericalData_dist_def own_windows_def numericalEntry_context)

subsection \<open>The input of the test\<close>

lemma test_content_value:
  "test_content =
     [67, 111, 115, 116, 32, 119, 97, 115, 32, 163, 49, 48, 46] @ replicate 150 97
       @ [76, 97, 116, 101, 114, 32, 99, 111, 115, 116, 32, 98, 101, 99, 97, 109, 101, 32,
          163, 50, 48, 46]"
  by (simp add: test_content_def js_def)

lemma test_content_matches:
  "match_global False numberRegex test_content = [[163, 49, 48], [163, 50, 48]]"
  by (simp add: match_global_def test_content_value replicate_numeral numberRegex_def regex_eval)

lemma test_content_matchAll:
  "matchAll False numberRegex test_content
     = [\<lparr>m_index = 9, m_text = [163, 49, 48], m_groups = Map.empty\<rparr>,
        \<lparr>m_index = 181, m_text = [163, 50, 48], m_groups = Map.empty\<rparr>]"
  by (simp add: matchAll_def test_content_value replicate_numeral numberRegex_def regex_eval)

lemma test_content_indexOf:
  "indexOf test_content [163, 49, 48] = 9" "indexOf test_content [163, 50, 48] = 181"
  by (simp_all add: indexOf_def test_content_value replicate_numeral)

lemma test_content_windows:
  "substring test_content (max 0 (9 - 100))
       (min (int (length test_content)) (9 + int (length [163, 49, 48::nat]) + 100))
     = [67, 111, 115, 116, 32, 119, 97, 115, 32, 163, 49, 48, 46] @ replicate 99 97"
  "substring test_content (max 0 (181 - 100))
       (min (int (length test_content)) (181 + int (length [163, 50, 48::nat]) + 100))
     = replicate 82 97 @ [76, 97, 116, 101, 114, 32, 99, 111, 115, 116, 32, 98, 101, 99, 97,
         109, 101, 32, 163, 50, 48, 46]"
  by (simp_all add: substring_def test_content_value replicate_numeral)

text \<open>
  On the input of the test both functions return two entries, with the windows
  \<open>[0, 112)\<close> and \<open>[81, 185)\<close> of the content: the test passes on either.
\<close>

lemma test_result_contexts:
  "map ne_context (extractNumericalData rt [test_result])
     = [[67, 111, 115, 116, 32, 119, 97, 115, 32, 163, 49, 48, 46] @ replicate 99 97,
        replicate 82 97 @ [76, 97, 116, 101, 114, 32, 99, 111, 115, 116, 32, 98, 101, 99, 97,
          109, 101, 32, 163, 50, 48, 46]]"
  "map ne_context (extractNumericalData_dist rt [test_result])
     = [[67, 111, 115, 116, 32, 119, 97, 115, 32, 163, 49, 48, 46] @ replicate 99 97,
        replicate 82 97 @ [76, 97, 116, 101, 114, 32, 99, 111, 115, 116, 32, 98, 101, 99, 97,
          109, 101, 32, 163, 50, 48, 46]]"
proof -
  show "map ne_context (extractNumericalData rt [test_result])
     = [[67, 111, 115, 116, 32, 119, 97, 115, 32, 163, 49, 48, 46] @ replicate 99 97,
        replicate 82 97 @ [76, 97, 116, 101, 114, 32, 99, 111, 115, 116, 32, 98, 101, 99, 97,
          109, 101, 32, 163, 50, 48, 46]]"
    using test_content_windows
    by (simp add: extractNumericalData_def test_result_def test_content_matches
        test_content_indexOf numericalEntry_context)
  show "map ne_context (extractNumericalData_dist rt [test_result])
     = [[67, 111, 115, 116, 32, 119, 97, 115, 32, 163, 49, 48, 46] @ replicate 99 97,
        replicate 82 97 @ [76, 97, 116, 101, 114, 32, 99, 111, 115, 116, 32, 98, 101, 99, 97,
          109, 101, 32, 163, 50, 48, 46]]"
    using test_content_windows
    by (simp add: extractNumericalData_dist_def test_result_def test_content_matchAll
        numericalEntry_context)
qed

subsection \<open>A price that comes back\<close>

lemma repeat_content_value:
  "repeat_content =
     [67, 111, 115, 116, 32, 119, 97, 115, 32, 163, 49, 48, 44, 32, 116, 104, 101, 110, 32,
      163, 50, 48, 46] @ replicate 150 97
       @ [76, 97, 116, 101, 114, 32, 99, 111, 115, 116, 32, 98, 101, 99, 97, 109, 101, 32,
          163, 49, 48, 46]"
  by (simp add: repeat_content_def js_def)

lemma repeat_content_matches:
  "match_global False numberRegex repeat_content
     = [[163, 49, 48], [163, 50, 48], [163, 49, 48]]"
  by (simp add: match_global_def repeat_content_value replicate_numeral numberRegex_def
      regex_eval)

lemma repeat_content_matchAll:
  "matchAll False numberRegex repeat_content
     = [\<lparr>m_index = 9, m_text = [163, 49, 48], m_groups = Map.empty\<rparr>,
        \<lparr>m_index = 19, m_text = [163, 50, 48], m_groups = Map.empty\<rparr>,
        \<lparr>m_index = 191, m_text = [163, 49, 48], m_groups = Map.empty\<rparr>]"
  by (simp add: matchAll_def repeat_content_value replicate_numeral numberRegex_def regex_eval)

lemma repeat_content_indexOf:
  "indexOf repeat_content [163, 49, 48] = 9" "indexOf repeat_content [163, 50, 48] = 19"
  by (simp_all add: indexOf_def repeat_content_value replicate_numeral)

lemma repeat_content_windows:
  "substring repeat_content (max 0 (9 - 100))
       (min (int (length repeat_content)) (9 + int (length [163, 49, 48::nat]) + 100))
     = [67, 111, 115, 116, 32, 119, 97, 115, 32, 163, 49, 48, 44, 32, 116, 104, 101, 110, 32,
        163, 50, 48, 46] @ replicate 89 97"
  "substring repeat_content (max 0 (19 - 100))
       (min (int (length repeat_content)) (19 + int (length [163, 50, 48::nat]) + 100))
     = [67, 111, 115, 116, 32, 119, 97, 115, 32, 163, 49, 48, 44, 32, 116, 104, 101, 110, 32,
        163, 50, 48, 46] @ replicate 99 97"
  "substring repeat_content (max 0 (191 - 100))
       (min (int (length repeat_content)) (191 + int (length [163, 49, 48::nat]) + 100))
     = replicate 82 97 @ [76, 97, 116, 101, 114, 32, 99, 111, 115, 116, 32, 98, 101, 99, 97,
         109, 101, 32, 163, 49, 48, 46]"
  by (simp_all add: substring_def repeat_content_value replicate_numeral)

lemma repeat_windows_contamination:
  "includes_str ([67, 111, 115, 116, 32, 119, 97, 115, 32, 163, 49, 48, 44, 32, 116, 104, 101,
      110, 32, 163, 50, 48, 46] @ replicate 89 97) [163, 50, 48]"
  "\<not> includes_str (replicate 82 97 @ [76, 97, 116, 101, 114, 32, 99, 111, 115, 116, 32, 98,
      101, 99, 97, 109, 101, 32, 163, 49, 48, 46]) [163, 50, 48]"
  by (simp_all add: replicate_numeral)

text \<open>
  C1.  The test is about context windows that do not cross-contaminate: each entry has
  the window around its own match (\<open>own_windows\<close>).  The function of the source misses
  it where the text of a match occurs earlier in the content, since it centres the window
  on \<open>content.indexOf(match)\<close>.  On \<open>Cost was \<pounds>10, then \<pounds>20.\<close>, 150 letters \<open>a\<close>, then
  \<open>Later cost became \<pounds>10.\<close> it returns three entries; the third, for the \<open>\<pounds>10\<close> at
  index 191, gets the window \<open>[0, 112)\<close> of the first \<open>\<pounds>10\<close>, which holds the \<open>\<pounds>20\<close> that
  lies 170 code units before the match and does not reach the match itself.  The compiled
  function that the test loads gives the window \<open>[91, 195)\<close>, without \<open>\<pounds>20\<close>.
\<close>

theorem extractNumericalData_repeated_match_window:
  "map ne_context (extractNumericalData rt [repeat_result])
     = [substring repeat_content 0 112, substring repeat_content 0 122,
        substring repeat_content 0 112]
   \<and> own_windows repeat_content
     = [substring repeat_content 0 112, substring repeat_content 0 122,
        substring repeat_content 91 195]
   \<and> map ne_context (extractNumericalData_dist rt [repeat_result]) = own_windows repeat_content
   \<and> map ne_context (extractNumericalData rt [repeat_result]) \<noteq> own_windows repeat_content
   \<and> includes_str (ne_context (extractNumericalData rt [repeat_result] ! 2)) ([163] @ js ''20'')
   \<and> \<not> includes_str (ne_context (extractNumericalData_dist rt [repeat_result] ! 2))
         ([163] @ js ''20'')"
proof -
  have len: "int (length repeat_content) = 195"
    by (simp add: repeat_content_value)
  have w: "substring repeat_content 0 112
             = [67, 111, 115, 116, 32, 119, 97, 115, 32, 163, 49, 48, 44, 32, 116, 104, 101, 110,
                32, 163, 50, 48, 46] @ replicate 89 97"
    "substring repeat_content 0 122
             = [67, 111, 115, 116, 32, 119, 97, 115, 32, 163, 49, 48, 44, 32, 116, 104, 101, 110,
                32, 163, 50, 48, 46] @ replicate 99 97"
    "substring repeat_content 91 195
             = replicate 82 97 @ [76, 97, 116, 101, 114, 32, 99, 111, 115, 116, 32, 98, 101, 99,
                 97, 109, 101, 32, 163, 49, 48, 46]"
    using repeat_content_windows by (simp_all add: len)
  have src: "map ne_context (extractNumericalData rt [repeat_result])
     = [substring repeat_content 0 112, substring repeat_content 0 122,
        substring repeat_content 0 112]"
    by (simp add: extractNumericalData_def repeat_result_def repeat_content_matches
        repeat_content_indexOf numericalEntry_context len)
  have own: "own_windows repeat_content
     = [substring repeat_content 0 112, substring repeat_content 0 122,
        substring repeat_content 91 195]"
    by (simp add: own_windows_def repeat_content_matchAll len)
  have dist: "map ne_context (extractNumericalData_dist rt [repeat_result])
                = own_windows repeat_content"
    using extractNumericalData_dist_own_windows [of rt repeat_result]
    by (simp add: repeat_result_def)
  have differ: "substring repeat_content 0 112 \<noteq> substring repeat_content 91 195"
    unfolding w by (simp add: replicate_numeral)
  have lit: "[163] @ js ''20'' = [163, 50, 48]"
    by (simp add: js_def)
  have third_src: "ne_context (extractNumericalData rt [repeat_result] ! 2)
                     = substring repeat_content 0 112"
    using arg_cong [OF src, of "\<lambda>xs. xs ! 2"]
    by (simp add: extractNumericalData_def repeat_result_def repeat_content_matches)
  have third_dist: "ne_context (extractNumericalData_dist rt [repeat_result] ! 2)
                     = substring repeat_content 91 195"
    using arg_cong [OF dist, of "\<lambda>xs. xs ! 2"]
    by (simp add: own extractNumericalData_dist_def repeat_result_def repeat_content_matchAll)
  show ?thesis
    unfolding lit third_src third_dist src dist own
    using repeat_windows_contamination differ
    by (simp add: w)
qed

section \<open>Properties of the council tax analysis\<close>

text \<open>\<open>includes\<close> is containment as a contiguous run.\<close>

lemma includes_str_sublist: "includes_str s t \<longleftrightarrow> sublist t s"
  by (induction s) (simp_all add: sublist_Cons_right)

lemma partialMatch_find:
  "partialMatch entries a =
     (case find (\<lambda>(key, control). sublist key a \<or> sublist a key) entries of
        Some (key, control) \<Rightarrow> control
      | None \<Rightarrow> js ''Unknown'')"
  by (induction entries a rule: partialMatch.induct) (simp_all add: includes_str_sublist)

lemma findPoliticalControl_containment:
  "findPoliticalControl rt m authority = control_by_containment rt m authority"
  by (simp add: findPoliticalControl_def control_by_containment_def Map_has_def Map_get_def
      partialMatch_find Let_def split: option.splits)

lemma councilTaxLine_control:
  "e \<in> set (councilTaxLine rt m rawLine) \<Longrightarrow>
     ct_politicalControl e = findPoliticalControl rt m (ct_authority e)"
  by (auto simp add: councilTaxLine_def Let_def split: if_splits option.splits)

lemma extractCouncilTaxData_control:
  "e \<in> set (extractCouncilTaxData rt m docs) \<Longrightarrow>
     ct_politicalControl e = findPoliticalControl rt m (ct_authority e)"
  by (auto simp add: extractCouncilTaxData_def councilTaxLine_control split: option.splits)

lemma councilData_summarise: "councilData (summarise rt d dbg) = d"
  by (simp add: summarise_def Let_def)

lemma councilData_analyze:
  "councilData (analyzeCouncilTaxData rt s documentIds debugMode)
     = extractCouncilTaxData rt
         (buildPoliticalControlMap rt (document_findMany rt s documentIds))
         (document_findMany rt s documentIds)"
  by (simp add: analyzeCouncilTaxData_def Let_def councilData_summarise)

text \<open>
  C5.  Whatever the documents, the political control of every authority that
  \<open>analyzeCouncilTaxData\<close> extracts is decided by string containment alone: it is the
  value of the exact lookup of the lower-case authority in the political-control map;
  failing that, the value of the first entry of the map whose key is a substring of the
  lower-case authority or has it as a substring; and \<open>Unknown\<close> when there is neither.
\<close>

theorem political_control_by_containment:
  "\<forall>e \<in> set (councilData (analyzeCouncilTaxData rt s documentIds debugMode)).
     ct_politicalControl e
       = control_by_containment rt
           (buildPoliticalControlMap rt (document_findMany rt s documentIds))
           (ct_authority e)"
  by (simp add: councilData_analyze extractCouncilTaxData_control
      findPoliticalControl_containment [symmetric])

subsection \<open>The analysis of the example store\<close>

lemmas council_eval =
  regex_eval match_first_def replace_global_def commaRegex_def decimalValue_def digitsValue_def
  example_runtime_def lowerChar_def trim_def split_def lit_def js_def group_text_def

lemma council_store_map:
  "buildPoliticalControlMap example_runtime (documents council_store)
     = [(js ''manchester'', js ''Labour''), (js ''surrey'', js ''Conservative'')]"
  by (simp add: council_store_def buildPoliticalControlMap_def isPoliticalControlDoc_def
      addControlLine_def Map_set_def Let_def council_eval)


lemmas line_eval =
  councilTaxLine_def percentageRegex_def authorityWordRegex_def taxRateRegex_def
  authorityTypeOf_def findPoliticalControl_def Map_has_def Map_get_def Let_def council_eval

lemma council_line3:
  "councilTaxLine example_runtime
     [(js ''manchester'', js ''Labour''), (js ''surrey'', js ''Conservative'')] (js ''Kent 2%'')
   = [\<lparr>ct_authority = js ''Kent'', ct_politicalControl = js ''Unknown'',
       ct_taxRate = Num 0, ct_percentageChange = Num 2,
       ct_year = js ''2025-2026'', ct_authorityType = js ''Unknown''\<rparr>]"
  by (simp add: line_eval)



lemma council_line1:
  "councilTaxLine example_runtime
     [(js ''manchester'', js ''Labour''), (js ''surrey'', js ''Conservative'')]
     (js ''Manchester City Council, 4.99% '' @ [163] @ js ''1,850.25'')
   = [\<lparr>ct_authority = js ''Manchester City ,'', ct_politicalControl = js ''Labour'',
       ct_taxRate = Num 1850.25, ct_percentageChange = Num 4.99,
       ct_year = js ''2025-2026'', ct_authorityType = js ''Unknown''\<rparr>]"
  by (simp add: line_eval)


lemma council_line2:
  "councilTaxLine example_runtime
     [(js ''manchester'', js ''Labour''), (js ''surrey'', js ''Conservative'')]
     (js ''West Surrey 3.5%'')
   = [\<lparr>ct_authority = js ''West Surrey'', ct_politicalControl = js ''Conservative'',
       ct_taxRate = Num 0, ct_percentageChange = Num 3.5,
       ct_year = js ''2025-2026'', ct_authorityType = js ''Unknown''\<rparr>]"
  by (simp add: line_eval)

lemma council_line_none:
  "councilTaxLine example_runtime
     [(js ''manchester'', js ''Labour''), (js ''surrey'', js ''Conservative'')]
     (js ''no numbers here'') = []"
  by (simp add: line_eval)

lemma council_docs:
  "document_findMany example_runtime council_store None = documents council_store"
  by (simp add: document_findMany_def example_runtime_def)

lemma council_store_lines:
  "extractCouncilTaxData example_runtime m (documents council_store)
     = concat (map (councilTaxLine example_runtime m)
         [js ''Manchester City Council, 4.99% '' @ [163] @ js ''1,850.25'',
          js ''West Surrey 3.5%'', js ''no numbers here'', js ''Kent 2%''])"
  by (simp add: extractCouncilTaxData_def isCouncilTaxDoc_def council_store_def
      example_runtime_def lowerChar_def split_def js_def)

lemma council_store_data:
  "councilData (analyzeCouncilTaxData example_runtime council_store None True)
   = [\<lparr>ct_authority = js ''Manchester City ,'', ct_politicalControl = js ''Labour'',
       ct_taxRate = Num 1850.25, ct_percentageChange = Num 4.99,
       ct_year = js ''2025-2026'', ct_authorityType = js ''Unknown''\<rparr>,
      \<lparr>ct_authority = js ''West Surrey'', ct_politicalControl = js ''Conservative'',
       ct_taxRate = Num 0, ct_percentageChange = Num 3.5,
       ct_year = js ''2025-2026'', ct_authorityType = js ''Unknown''\<rparr>,
      \<lparr>ct_authority = js ''Kent'', ct_politicalControl = js ''Unknown'',
       ct_taxRate = Num 0, ct_percentageChange = Num 2,
       ct_year = js ''2025-2026'', ct_authorityType = js ''Unknown''\<rparr>]"
  unfolding councilData_analyze council_docs council_store_map council_store_lines
    list.map council_line1 council_line2 council_line_none council_line3
  by simp

theorem political_control_by_containment_witness:
  "\<lparr>ct_authority = js ''West Surrey'', ct_politicalControl = js ''Conservative'',
     ct_taxRate = Num 0, ct_percentageChange = Num 3.5,
     ct_year = js ''2025-2026'', ct_authorityType = js ''Unknown''\<rparr>
     \<in> set (councilData (analyzeCouncilTaxData example_runtime council_store None True))
   \<and> control_by_containment example_runtime
         [(js ''manchester'', js ''Labour''), (js ''surrey'', js ''Conservative'')]
         (js ''West Surrey'') = js ''Conservative''"
  using political_control_by_containment [of example_runtime council_store None True]
  by (simp add: council_store_data council_docs council_store_map)

section \<open>Properties of \<open>truncateContext\<close>\<close>

text \<open>
  C9.  \<open>truncateContext\<close> is the identity on a context within budget: when the estimated
  token count, the ceiling of a quarter of the length, is at most \<open>maxTokens\<close>, the
  context is returned unchanged.
\<close>

theorem truncateContext_within_budget:
  assumes "real_of_int \<lceil>real (length context) / 4\<rceil> \<le> maxTokens"
  shows "truncateContext context maxTokens = context"
  using assms by (simp add: truncateContext_def estimateTokenCount_def)

theorem truncateContext_within_budget_witness:
  "real_of_int \<lceil>real (length (js ''Document: A'')) / 4\<rceil> \<le> 3
   \<and> truncateContext (js ''Document: A'') 3 = js ''Document: A''"
  using truncateContext_within_budget [of "js ''Document: A''" 3]
  by (simp add: js_def)

section \<open>Properties of \<open>generateMarkdownTable\<close>\<close>

lemma count_list_join:
  "count_list (join xs sep) c =
     sum_list (map (\<lambda>x. count_list x c) xs) + (length xs - 1) * count_list sep c"
  by (induction xs sep rule: join.induct) auto

lemma count_list_absent: "c \<notin> set xs \<Longrightarrow> count_list xs c = 0"
  by (induction xs) auto

lemma join_no_newline:
  assumes "\<forall>x \<in> set xs. 10 \<notin> set x"
  shows "count_list (join xs (js '' | '')) 10 = 0"
  using assms by (simp add: count_list_join js_def count_list_absent)

lemma alignCell_no_newline: "count_list (alignCell al i) 10 = 0"
  by (simp add: alignCell_def js_def Let_def)

lemma fold_alignCell_newlines:
  "count_list (fold (\<lambda>i t. t @ alignCell al i) ixs t) 10 = count_list t 10"
  by (induction ixs arbitrary: t) (simp_all add: alignCell_no_newline)

lemma rowLine_newlines:
  assumes "\<forall>cell \<in> set row. 10 \<notin> set (toStr cell)"
  shows "count_list (rowLine toStr row) 10 = 1"
proof -
  have "count_list (join (map toStr row) (js '' | '')) 10 = 0"
    using assms by (intro join_no_newline) auto
  then show ?thesis by (simp add: rowLine_def js_def)
qed

lemma fold_rowLine_newlines:
  assumes "\<forall>row \<in> set rows. \<forall>cell \<in> set row. 10 \<notin> set (toStr cell)"
  shows "count_list (fold (\<lambda>row t. t @ rowLine toStr row) rows t) 10
           = count_list t 10 + length rows"
  using assms by (induction rows arbitrary: t) (simp_all add: rowLine_newlines)

lemma fold_rowLine_last:
  "rows \<noteq> [] \<Longrightarrow> last (fold (\<lambda>row t. t @ rowLine toStr row) rows t) = 10"
  by (induction rows arbitrary: t rule: rev_induct) (simp_all add: rowLine_def)

lemma fold_rowLine_nonempty:
  "t \<noteq> [] \<Longrightarrow> fold (\<lambda>row t. t @ rowLine toStr row) rows t \<noteq> []"
  by (induction rows arbitrary: t) simp_all

text \<open>
  C10 (as amended).  \<open>generateMarkdownTable\<close> returns the empty string exactly when
  \<open>rows\<close> is empty.  When \<open>rows\<close> is not empty and neither a header nor the string
  form of a cell contains a line feed, the output is made of exactly
  \<open>2 + length rows\<close> newline-terminated lines: the header line, the alignment line and
  one line for each row.
\<close>

theorem generateMarkdownTable_lines:
  "(generateMarkdownTable toStr headers rows alignments = [] \<longleftrightarrow> rows = [])
   \<and> (rows \<noteq> []
        \<and> (\<forall>h \<in> set headers. 10 \<notin> set h)
        \<and> (\<forall>row \<in> set rows. \<forall>cell \<in> set row. 10 \<notin> set (toStr cell))
      \<longrightarrow> lineCount (generateMarkdownTable toStr headers rows alignments)
            = Some (2 + length rows))"
proof (intro conjI impI)
  show "generateMarkdownTable toStr headers rows alignments = [] \<longleftrightarrow> rows = []"
    by (simp add: generateMarkdownTable_def Let_def fold_rowLine_nonempty js_def)
next
  assume h: "rows \<noteq> []
        \<and> (\<forall>h \<in> set headers. 10 \<notin> set h)
        \<and> (\<forall>row \<in> set rows. \<forall>cell \<in> set row. 10 \<notin> set (toStr cell))"
  let ?head = "js ''| '' @ join headers (js '' | '') @ js '' |'' @ [10]"
  let ?t = "fold (\<lambda>i t. t @ alignCell alignments i) [0 ..< length headers] (?head @ js ''|'') @ [10]"
  have out: "generateMarkdownTable toStr headers rows alignments
              = fold (\<lambda>row t. t @ rowLine toStr row) rows ?t"
    using h by (simp add: generateMarkdownTable_def Let_def)
  have "count_list (join headers (js '' | '')) 10 = 0"
    using h by (intro join_no_newline) simp
  then have "count_list ?head 10 = 1"
    by (simp add: js_def)
  then have "count_list ?t 10 = 2"
    by (simp add: fold_alignCell_newlines) (simp add: js_def)
  then have cnt: "count_list (generateMarkdownTable toStr headers rows alignments) 10
                    = 2 + length rows"
    using h by (simp add: out fold_rowLine_newlines)
  have "last (generateMarkdownTable toStr headers rows alignments) = 10"
    using h by (simp add: out fold_rowLine_last)
  moreover have "generateMarkdownTable toStr headers rows alignments \<noteq> []"
    unfolding out by (rule fold_rowLine_nonempty) simp
  ultimately show "lineCount (generateMarkdownTable toStr headers rows alignments)
            = Some (2 + length rows)"
    using cnt by (simp add: lineCount_def)
qed

theorem generateMarkdownTable_lines_witness:
  "(generateMarkdownTable id [js ''a'', js ''b''] [[js ''1'', js ''2''], [js ''3'', js ''4'']] [js ''right''] = []
      \<longleftrightarrow> [[js ''1'', js ''2''], [js ''3'', js ''4'']] = [])
   \<and> lineCount (generateMarkdownTable id [js ''a'', js ''b''] [[js ''1'', js ''2''], [js ''3'', js ''4'']] [js ''right''])
       = Some 4"
  using generateMarkdownTable_lines [of id "[js ''a'', js ''b'']" "[[js ''1'', js ''2''], [js ''3'', js ''4'']]" "[js ''right'']"]
  by (simp add: js_def)

text \<open>
  C10 as stated fails when a header holds a line feed: no cell is escaped, so the table
  for the header \<open>a\<close>, line feed, \<open>b\<close> and the single row \<open>x\<close> has four lines, not three.
\<close>

theorem generateMarkdownTable_newline_counterexample:
  "lineCount (generateMarkdownTable id [js ''a'' @ [10] @ js ''b''] [[js ''x'']] [])
     \<noteq> Some (2 + length [[js ''x'']])"
  by (simp add: generateMarkdownTable_def lineCount_def js_def rowLine_def alignCell_def)

section \<open>Properties of \<open>DELETE\<close> on the documents endpoint\<close>









section \<open>Properties of the semantic search\<close>

lemma created_before_scored_append:
  "created_before_scored known (xs @ ys)
     \<longleftrightarrow> created_before_scored known xs
          \<and> created_before_scored (\<lambda>k. known k \<or> CreateDocumentChunks k \<in> set xs) ys"
proof (induction known xs rule: created_before_scored.induct)
  case (2 known k cs)
  have eq: "(\<lambda>j. (known(k := True)) j \<or> CreateDocumentChunks j \<in> set cs)
          = (\<lambda>j. known j \<or> CreateDocumentChunks j \<in> set (CreateDocumentChunks k # cs))"
    by auto
  from "2.IH" [unfolded eq] show ?case by (simp add: fun_upd_def)
qed simp_all

lemma created_before_scored_mono:
  assumes "created_before_scored known cs" and "\<And>k. known k \<Longrightarrow> known' k"
  shows "created_before_scored known' cs"
  using assms
proof (induction known cs arbitrary: known' rule: created_before_scored.induct)
  case (2 known k cs)
  from "2.prems"(1) have "created_before_scored (known(k := True)) cs" by simp
  then have "created_before_scored (known'(k := True)) cs"
    by (rule "2.IH") (use "2.prems"(2) in auto)
  then show ?case by simp
qed auto

lemma embedding_texts_append:
  "embedding_texts (xs @ ys) = embedding_texts xs @ embedding_texts ys"
  by (induction xs rule: embedding_texts.induct) simp_all

lemma score_chunks_effect:
  assumes "score_chunks rt sv q d cs st acc = (r, st')"
  shows "documentChunks st' = documentChunks st
       \<and> (\<exists>new. calls st' = calls st @ new
             \<and> (\<forall>c \<in> set new. (\<exists>t. c = GetEmbedding t) \<or> (\<exists>i. c = Similarity (ref_id d) i))
             \<and> (\<forall>res. r = Inr res \<longrightarrow> embedding_texts new = map mc_content cs))"
  using assms
proof (induction cs arbitrary: st acc)
  case Nil
  then show ?case by auto
next
  case (Cons c cs)
  let ?st1 = "record_call (GetEmbedding (mc_content c)) st"
  show ?case
  proof (cases "fst (getEmbedding sv (mc_content c) st)")
    case (Inl e)
    with Cons.prems have "r = Inl e" "st' = ?st1"
      by (auto simp add: getEmbedding_def split: if_splits)
    then show ?thesis by (simp add: record_call_def)
  next
    case (Inr emb)
    let ?st2 = "record_call (Similarity (ref_id d) (md_index (mc_metadata c))) ?st1"
    from Inr Cons.prems obtain acc' where
      rec: "score_chunks rt sv q d cs ?st2 acc' = (r, st')"
      by (auto simp add: getEmbedding_def Let_def split: if_splits)
    from Cons.IH [OF rec] obtain new where
      dc: "documentChunks st' = documentChunks ?st2"
      and cl: "calls st' = calls ?st2 @ new"
      and ev: "\<forall>c \<in> set new. (\<exists>t. c = GetEmbedding t) \<or> (\<exists>i. c = Similarity (ref_id d) i)"
      and em: "\<forall>res. r = Inr res \<longrightarrow> embedding_texts new = map mc_content cs"
      by blast
    let ?new = "GetEmbedding (mc_content c) # Similarity (ref_id d) (md_index (mc_metadata c)) # new"
    have "calls st' = calls st @ ?new"
      using cl by (simp add: record_call_def)
    moreover have "\<forall>c \<in> set ?new. (\<exists>t. c = GetEmbedding t) \<or> (\<exists>i. c = Similarity (ref_id d) i)"
      using ev by auto
    moreover have "\<forall>res. r = Inr res \<longrightarrow> embedding_texts ?new = map mc_content (c # cs)"
      using em by simp
    moreover have "documentChunks st' = documentChunks st"
      using dc by (simp add: record_call_def)
    ultimately show ?thesis by blast
  qed
qed


lemma similarity_of_known:
  assumes "\<forall>c \<in> set new. (\<exists>t. c = GetEmbedding t) \<or> (\<exists>i. c = Similarity k i)" and "known k"
  shows "created_before_scored known new"
  using assms by (induction new) auto

lemma chunks_of_document_effect:
  assumes "chunks_of_document sv s d st = (r, st')"
  shows "(\<forall>k v. documentChunks st k = Some v \<longrightarrow> documentChunks st' k = Some v)
       \<and> (\<forall>k v. documentChunks st k = None \<and> documentChunks st' k = Some v \<longrightarrow>
              k = ref_id d
              \<and> (\<exists>doc. document_findUnique s k = Some doc
                    \<and> v = build_chunks k doc (splitText sv (doc_content doc))))
       \<and> (\<forall>cl. r = Inr cl \<longrightarrow> documentChunks st' (ref_id d) = Some cl)
       \<and> (\<exists>new. calls st' = calls st @ new
             \<and> (new = [] \<or> new = [CreateDocumentChunks (ref_id d)])
             \<and> (\<forall>k. k \<in> dom (documentChunks st') \<longrightarrow>
                    k \<in> dom (documentChunks st) \<or> CreateDocumentChunks k \<in> set new))"
proof (cases "documentChunks st (ref_id d)")
  case (Some found)
  with assms have "r = Inr found" "st' = st"
    by (simp_all add: chunks_of_document_def)
  with Some show ?thesis by auto
next
  case None
  show ?thesis
  proof (cases "document_findUnique s (ref_id d)")
    case nf: None
    with None assms have "st' = record_call (CreateDocumentChunks (ref_id d)) st"
      and "\<exists>e. r = Inl e"
      by (auto simp add: chunks_of_document_def createDocumentChunks_def Let_def)
    then show ?thesis by (auto simp add: record_call_def)
  next
    case (Some doc)
    let ?built = "build_chunks (ref_id d) doc (splitText sv (doc_content doc))"
    from None Some assms have
      st': "st' = (record_call (CreateDocumentChunks (ref_id d)) st)
                    \<lparr>documentChunks := (documentChunks st)(ref_id d \<mapsto> ?built)\<rparr>"
      and r: "r = Inr ?built"
      by (auto simp add: chunks_of_document_def createDocumentChunks_def Let_def
          record_call_def)
    have "calls st' = calls st @ [CreateDocumentChunks (ref_id d)]"
      by (simp add: st' record_call_def)
    moreover have "\<forall>k v. documentChunks st k = Some v \<longrightarrow> documentChunks st' k = Some v"
      using None by (auto simp add: st')
    moreover have "\<forall>k v. documentChunks st k = None \<and> documentChunks st' k = Some v \<longrightarrow>
              k = ref_id d
              \<and> (\<exists>doc. document_findUnique s k = Some doc
                    \<and> v = build_chunks k doc (splitText sv (doc_content doc)))"
      using Some by (auto simp add: st' split: if_splits)
    moreover have "\<forall>cl. r = Inr cl \<longrightarrow> documentChunks st' (ref_id d) = Some cl"
      by (simp add: st' r)
    moreover have "\<forall>k. k \<in> dom (documentChunks st') \<longrightarrow>
                    k \<in> dom (documentChunks st)
                    \<or> CreateDocumentChunks k \<in> set [CreateDocumentChunks (ref_id d)]"
      by (auto simp add: st' split: if_splits)
    ultimately show ?thesis by blast
  qed
qed


lemma score_documents_effect:
  assumes "score_documents rt sv s q docs st acc = (r, st')"
  shows "(\<forall>k v. documentChunks st k = Some v \<longrightarrow> documentChunks st' k = Some v)
       \<and> (\<forall>k v. documentChunks st k = None \<and> documentChunks st' k = Some v \<longrightarrow>
              (\<exists>doc. document_findUnique s k = Some doc
                    \<and> v = build_chunks k doc (splitText sv (doc_content doc))))
       \<and> (\<forall>res. r = Inr res \<longrightarrow> (\<forall>d \<in> set docs. ref_id d \<in> dom (documentChunks st')))
       \<and> (\<exists>new. calls st' = calls st @ new
             \<and> created_before_scored (\<lambda>k. k \<in> dom (documentChunks st)) new
             \<and> (\<forall>res. r = Inr res \<longrightarrow>
                    embedding_texts new
                      = concat (map (\<lambda>d. map mc_content (the (documentChunks st' (ref_id d))))
                                    docs)))"
  using assms
proof (induction docs arbitrary: st acc)
  case Nil
  then have "r = Inr acc" "st' = st" by simp_all
  then show ?case by auto
next
  case (Cons d docs)
  obtain rA stA where A: "chunks_of_document sv s d st = (rA, stA)"
    by (cases "chunks_of_document sv s d st")
  from chunks_of_document_effect [OF A] obtain newA where
    keepA: "\<forall>k v. documentChunks st k = Some v \<longrightarrow> documentChunks stA k = Some v"
    and freshA: "\<forall>k v. documentChunks st k = None \<and> documentChunks stA k = Some v \<longrightarrow>
              k = ref_id d
              \<and> (\<exists>doc. document_findUnique s k = Some doc
                    \<and> v = build_chunks k doc (splitText sv (doc_content doc)))"
    and hasA: "\<forall>cl. rA = Inr cl \<longrightarrow> documentChunks stA (ref_id d) = Some cl"
    and callsA: "calls stA = calls st @ newA"
    and shapeA: "newA = [] \<or> newA = [CreateDocumentChunks (ref_id d)]"
    and domA: "\<forall>k. k \<in> dom (documentChunks stA) \<longrightarrow>
                    k \<in> dom (documentChunks st) \<or> CreateDocumentChunks k \<in> set newA"
    by blast
  have cbsA: "created_before_scored (\<lambda>k. k \<in> dom (documentChunks st)) newA"
    using shapeA by auto
  let ?known = "\<lambda>k. k \<in> dom (documentChunks st)"
  let ?knownA = "\<lambda>k. ?known k \<or> CreateDocumentChunks k \<in> set newA"
  show ?case
  proof (cases rA)
    case (Inl e)
    with A Cons.prems have "r = Inl e" "st' = stA" by simp_all
    with keepA freshA callsA cbsA show ?thesis by auto
  next
    case (Inr chunkList)
    have hasd: "documentChunks stA (ref_id d) = Some chunkList"
      using hasA Inr by simp
    obtain rB stB where B: "score_chunks rt sv q d chunkList stA acc = (rB, stB)"
      by (cases "score_chunks rt sv q d chunkList stA acc")
    from score_chunks_effect [OF B] obtain newB where
      dcB: "documentChunks stB = documentChunks stA"
      and callsB: "calls stB = calls stA @ newB"
      and evB: "\<forall>c \<in> set newB. (\<exists>t. c = GetEmbedding t) \<or> (\<exists>i. c = Similarity (ref_id d) i)"
      and embB: "\<forall>res. rB = Inr res \<longrightarrow> embedding_texts newB = map mc_content chunkList"
      by blast
    have knownd: "?knownA (ref_id d)"
      using domA hasd by auto
    have cbsB: "created_before_scored ?knownA newB"
      using evB knownd by (rule similarity_of_known)
    have noA: "\<And>k. Similarity k i \<notin> set newA" for i
      using shapeA by auto
    have cbsAB: "created_before_scored ?known (newA @ newB)"
      using cbsA cbsB by (simp add: created_before_scored_append)
    show ?thesis
    proof (cases rB)
      case rBl: (Inl e)
      with A B Inr Cons.prems have "r = Inl e" "st' = stB" by simp_all
      moreover have "calls stB = calls st @ (newA @ newB)"
        using callsA callsB by simp
      ultimately show ?thesis
        using keepA freshA dcB cbsAB by auto
    next
      case rBr: (Inr acc')
      with A B Inr Cons.prems have
        C: "score_documents rt sv s q docs stB acc' = (r, st')" by simp
      from Cons.IH [OF C] obtain newC where
        keepC: "\<forall>k v. documentChunks stB k = Some v \<longrightarrow> documentChunks st' k = Some v"
        and freshC: "\<forall>k v. documentChunks stB k = None \<and> documentChunks st' k = Some v \<longrightarrow>
              (\<exists>doc. document_findUnique s k = Some doc
                    \<and> v = build_chunks k doc (splitText sv (doc_content doc)))"
        and domC: "\<forall>res. r = Inr res \<longrightarrow> (\<forall>d \<in> set docs. ref_id d \<in> dom (documentChunks st'))"
        and callsC: "calls st' = calls stB @ newC"
        and cbsC: "created_before_scored (\<lambda>k. k \<in> dom (documentChunks stB)) newC"
        and embC: "\<forall>res. r = Inr res \<longrightarrow>
                    embedding_texts newC
                      = concat (map (\<lambda>d. map mc_content (the (documentChunks st' (ref_id d))))
                                    docs)"
        by blast
      have keep: "\<forall>k v. documentChunks st k = Some v \<longrightarrow> documentChunks st' k = Some v"
        using keepA keepC dcB by simp
      have fresh: "\<forall>k v. documentChunks st k = None \<and> documentChunks st' k = Some v \<longrightarrow>
              (\<exists>doc. document_findUnique s k = Some doc
                    \<and> v = build_chunks k doc (splitText sv (doc_content doc)))"
      proof (intro allI impI)
        fix k v
        assume h: "documentChunks st k = None \<and> documentChunks st' k = Some v"
        show "\<exists>doc. document_findUnique s k = Some doc
                    \<and> v = build_chunks k doc (splitText sv (doc_content doc))"
        proof (cases "documentChunks stA k")
          case None
          with h freshC dcB show ?thesis by simp
        next
          case (Some w)
          with keepC dcB h have "v = w" by simp
          with Some h freshA show ?thesis by blast
        qed
      qed
      have final_d: "documentChunks st' (ref_id d) = Some chunkList"
        using keepC dcB hasd by simp
      have dom: "\<forall>res. r = Inr res \<longrightarrow> (\<forall>x \<in> set (d # docs). ref_id x \<in> dom (documentChunks st'))"
        using domC final_d by auto
      have calls: "calls st' = calls st @ (newA @ newB @ newC)"
        using callsA callsB callsC by simp
      have "created_before_scored (\<lambda>k. ?known k \<or> CreateDocumentChunks k \<in> set (newA @ newB)) newC"
        using cbsC by (rule created_before_scored_mono) (use domA dcB in auto)
      with cbsAB have cbs: "created_before_scored ?known (newA @ newB @ newC)"
        using created_before_scored_append [of ?known "newA @ newB" newC] by simp
      have embA: "embedding_texts newA = []"
        using shapeA by auto
      have emb: "\<forall>res. r = Inr res \<longrightarrow>
                    embedding_texts (newA @ newB @ newC)
                      = concat (map (\<lambda>d. map mc_content (the (documentChunks st' (ref_id d))))
                                    (d # docs))"
        using embA embB embC rBr final_d by (simp add: embedding_texts_append)
      from keep fresh dom calls cbs emb show ?thesis by blast
    qed
  qed
qed


lemma getEmbedding_state:
  "snd (getEmbedding sv t st) = record_call (GetEmbedding t) st"
  by (simp add: getEmbedding_def)

text \<open>
  C6 (as amended).  Whatever the outcome of \<open>semanticSearch\<close>, an entry that the map
  \<open>documentChunks\<close> had is still there with the same chunks, and an entry that is new
  holds the chunks that \<open>createDocumentChunks\<close> builds from the stored document of that
  id; after a successful search every document that the database returned has an entry;
  and the similarity of a chunk is computed only for a document that had an entry or
  whose chunks were created before: for each document without an entry,
  \<open>createDocumentChunks\<close> runs before any similarity of that document's chunks is
  computed.
\<close>

theorem semanticSearch_documentChunks:
  assumes "semanticSearch rt sv s query limit st = (r, st')"
  shows "(\<forall>k v. documentChunks st k = Some v \<longrightarrow> documentChunks st' k = Some v)
       \<and> (\<forall>k v. documentChunks st k = None \<and> documentChunks st' k = Some v \<longrightarrow>
              (\<exists>doc. document_findUnique s k = Some doc
                    \<and> v = build_chunks k doc (splitText sv (doc_content doc))))
       \<and> (\<forall>res. r = Inr res \<longrightarrow>
              (\<forall>d \<in> set (document_findMany rt s None). doc_id d \<in> dom (documentChunks st')))
       \<and> (\<exists>new. calls st' = calls st @ new
             \<and> created_before_scored (\<lambda>k. k \<in> dom (documentChunks st)) new)"
proof -
  let ?st1 = "record_call (GetEmbedding query) st"
  let ?docs = "map (\<lambda>d. \<lparr>ref_id = doc_id d, ref_title = doc_title d\<rparr>) (document_findMany rt s None)"
  have st1: "documentChunks ?st1 = documentChunks st" "calls ?st1 = calls st @ [GetEmbedding query]"
    by (simp_all add: record_call_def)
  show ?thesis
  proof (cases "fst (getEmbedding sv query st)")
    case (Inl e)
    with assms have "r = Inl e" "st' = ?st1"
      by (auto simp add: semanticSearch_def getEmbedding_def split: if_splits)
    with st1 show ?thesis by auto
  next
    case (Inr qe)
    obtain r2 st2 where B: "score_documents rt sv s qe ?docs ?st1 [] = (r2, st2)"
      by (cases "score_documents rt sv s qe ?docs ?st1 []")
    from Inr B assms have st': "st' = st2" and r: "(\<exists>res. r = Inr res) \<longrightarrow> (\<exists>res. r2 = Inr res)"
      by (auto simp add: semanticSearch_def getEmbedding_def Let_def split: if_splits sum.splits)
    from score_documents_effect [OF B] obtain new where
      keep: "\<forall>k v. documentChunks ?st1 k = Some v \<longrightarrow> documentChunks st2 k = Some v"
      and fresh: "\<forall>k v. documentChunks ?st1 k = None \<and> documentChunks st2 k = Some v \<longrightarrow>
              (\<exists>doc. document_findUnique s k = Some doc
                    \<and> v = build_chunks k doc (splitText sv (doc_content doc)))"
      and dom: "\<forall>res. r2 = Inr res \<longrightarrow> (\<forall>d \<in> set ?docs. ref_id d \<in> dom (documentChunks st2))"
      and calls: "calls st2 = calls ?st1 @ new"
      and cbs: "created_before_scored (\<lambda>k. k \<in> dom (documentChunks ?st1)) new"
      by blast
    have "calls st' = calls st @ (GetEmbedding query # new)"
      using calls st1 st' by simp
    moreover have "created_before_scored (\<lambda>k. k \<in> dom (documentChunks st)) (GetEmbedding query # new)"
      using cbs st1 by simp
    moreover have "\<forall>res. r = Inr res \<longrightarrow>
              (\<forall>d \<in> set (document_findMany rt s None). doc_id d \<in> dom (documentChunks st'))"
      using dom r st' by auto
    ultimately show ?thesis
      using keep fresh st1 st' by auto
  qed
qed

subsection \<open>The search on the example store\<close>

lemmas search_eval =
  semanticSearch_def getEmbedding_def record_call_def chunks_of_document_def
  createDocumentChunks_def build_chunks_def document_findUnique_def document_findMany_def
  cosineSimilarity_def format_result_def by_similarity_def slice_def sort_by_def
  example_services_def example_runtime_def example_embedding_def example_store_def
  empty_state_def js_def Let_def

lemma example_search_calls:
  "calls (snd (semanticSearch example_runtime (example_services None) example_store (js ''x'') 5
                 empty_state))
     = [GetEmbedding (js ''x''),
        CreateDocumentChunks (js ''d1''), GetEmbedding (js ''x''), Similarity (js ''d1'') 0,
        CreateDocumentChunks (js ''d2''), GetEmbedding (js ''y''), Similarity (js ''d2'') 0]"
  by (simp add: search_eval)

lemma example_search_results:
  "map_sum id (map (\<lambda>r. (sr_documentId r, sr_similarity r)))
     (fst (semanticSearch example_runtime (example_services None) example_store (js ''y'') 5
                 empty_state))
     = Inr [(js ''d2'', Num 1), (js ''d1'', Num 0)]"
  by (simp add: search_eval)

lemma example_search_negative:
  "map_sum id (map (\<lambda>r. (sr_documentId r, sr_similarity r)))
     (fst (semanticSearch example_runtime (example_services None) example_store (js ''y'') (- 1)
                 empty_state))
     = Inr [(js ''d2'', Num 1)]"
  by (simp add: search_eval)


lemma warm_search_succeeds:
  "\<exists>res. fst (semanticSearch example_runtime (example_services None) example_store (js ''x'') 5
               warm_state) = Inr res"
  by (simp add: search_eval warm_state_def)

lemma example_documents:
  "document_findMany example_runtime example_store None = documents example_store"
  by (simp add: document_findMany_def example_runtime_def)

theorem semanticSearch_documentChunks_witness:
  "documentChunks
     (snd (semanticSearch example_runtime (example_services None) example_store (js ''x'') 5
             warm_state)) (js ''d1'')
     = documentChunks warm_state (js ''d1'')
   \<and> js ''d2'' \<in> dom (documentChunks
         (snd (semanticSearch example_runtime (example_services None) example_store (js ''x'') 5
                 warm_state)))"
proof -
  let ?run = "semanticSearch example_runtime (example_services None) example_store (js ''x'') 5
                warm_state"
  have run: "?run = (fst ?run, snd ?run)" by simp
  note T = semanticSearch_documentChunks [OF run]
  have warm: "\<exists>v. documentChunks warm_state (js ''d1'') = Some v"
    by (simp add: warm_state_def)
  have d2: "\<exists>d \<in> set (documents example_store). doc_id d = js ''d2''"
    by (simp add: example_store_def)
  from T warm have "documentChunks (snd ?run) (js ''d1'') = documentChunks warm_state (js ''d1'')"
    by auto
  moreover have "js ''d2'' \<in> dom (documentChunks (snd ?run))"
  proof -
    from warm_search_succeeds obtain res where "fst ?run = Inr res" ..
    with T have "\<forall>d \<in> set (documents example_store). doc_id d \<in> dom (documentChunks (snd ?run))"
      unfolding example_documents by simp
    with d2 show ?thesis by auto
  qed
  ultimately show ?thesis by simp
qed

text \<open>
  C6 as stated asks for more: that the chunks of every document without an entry are
  created before any similarity is computed.  The loop creates the chunks of a document
  when it reaches it: with two documents without an entry, the similarity of the chunk of
  the first is computed before the chunks of the second are created.
\<close>

theorem semanticSearch_creation_order_counterexample:
  "calls (snd (semanticSearch example_runtime (example_services None) example_store (js ''x'') 5
                 empty_state))
     = [GetEmbedding (js ''x''),
        CreateDocumentChunks (js ''d1''), GetEmbedding (js ''x''), Similarity (js ''d1'') 0,
        CreateDocumentChunks (js ''d2''), GetEmbedding (js ''y''), Similarity (js ''d2'') 0]
   \<and> \<not> creations_before_any_similarity
         (calls (snd (semanticSearch example_runtime (example_services None) example_store
                        (js ''x'') 5 empty_state)))"
  by (simp add: example_search_calls is_creation_def)

subsection \<open>The results of the search\<close>









lemma example_arrangement:
  "non_increasing_arrangement example_runtime
     (array_sort (example_services None) (by_similarity example_runtime)
        [\<lparr>sc_chunk = c1, sc_document = r1, sc_similarity = Num 0\<rparr>,
         \<lparr>sc_chunk = c2, sc_document = r2, sc_similarity = Num 1\<rparr>])
     [\<lparr>sc_chunk = c1, sc_document = r1, sc_similarity = Num 0\<rparr>,
      \<lparr>sc_chunk = c2, sc_document = r2, sc_similarity = Num 1\<rparr>]"
  by (simp add: non_increasing_arrangement_def not_greater_def example_services_def
      example_runtime_def sort_by_def by_similarity_def)



end
